theory Spec2Isabelle
  imports Complex_Main
begin

section \<open>Strings and regular expressions\<close>

text \<open>
  JavaScript strings are modelled as \<open>string\<close>. The patterns and keywords of the
  program are ASCII; \<open>toLowerCase\<close> and the \<open>i\<close> flag are modelled on the ASCII
  letters, every other character is left as it is.
\<close>

definition toLowerChar :: "char \<Rightarrow> char" where
  "toLowerChar c =
     (case map_of (zip ''ABCDEFGHIJKLMNOPQRSTUVWXYZ'' ''abcdefghijklmnopqrstuvwxyz'') c of
        Some d \<Rightarrow> d
      | None \<Rightarrow> c)"

definition toLowerCase :: "string \<Rightarrow> string" where
  "toLowerCase s = map toLowerChar s"

fun startsWith :: "string \<Rightarrow> string \<Rightarrow> bool" where
  "startsWith s [] = True"
| "startsWith [] (p # ps) = False"
| "startsWith (c # s) (p # ps) = (c = p \<and> startsWith s ps)"

text \<open>\<open>String.prototype.includes\<close>: the keyword occurs somewhere in the string.\<close>

fun includesStr :: "string \<Rightarrow> string \<Rightarrow> bool" where
  "includesStr [] p = (p = [])"
| "includesStr (c # s) p = (startsWith (c # s) p \<or> includesStr s p)"

text \<open>
  The regular expressions of the source use literals, alternation \<open>(a|b)\<close>, the
  optional marker \<open>?\<close> and the anchors \<open>^\<close> and \<open>$\<close>, all with the flag \<open>i\<close>
  and without the flag \<open>m\<close>.
\<close>

datatype regex =
    Lit string
  | Alt "regex list"
  | Opt regex
  | Cat "regex list"
  | Bol
  | Eol

text \<open>
  A matcher state is the input still to be read, with a flag telling whether the
  position is the start of the input. \<open>rmatch r st\<close> lists the states in which a match
  of \<open>r\<close> begun in \<open>st\<close> can end.
\<close>

fun rmatch :: "regex \<Rightarrow> bool \<times> string \<Rightarrow> (bool \<times> string) list" where
  "rmatch (Lit l) st =
     (if startsWith (snd st) (toLowerCase l)
      then [(fst st \<and> l = [], drop (length l) (snd st))] else [])"
| "rmatch (Alt rs) st = concat (map (\<lambda>r. rmatch r st) rs)"
| "rmatch (Opt r) st = rmatch r st @ [st]"
| "rmatch (Cat []) st = [st]"
| "rmatch (Cat (r # rs)) st = concat (map (rmatch (Cat rs)) (rmatch r st))"
| "rmatch Bol st = (if fst st then [st] else [])"
| "rmatch Eol st = (if snd st = [] then [st] else [])"

text \<open>A match may begin at any position of the input.\<close>

fun matchFrom :: "regex \<Rightarrow> bool \<Rightarrow> string \<Rightarrow> bool" where
  "matchFrom r b [] = (rmatch r (b, []) \<noteq> [])"
| "matchFrom r b (c # s) = (rmatch r (b, c # s) \<noteq> [] \<or> matchFrom r False s)"

text \<open>\<open>pattern.test(s)\<close> for a pattern with the flag \<open>i\<close>.\<close>

definition test :: "regex \<Rightarrow> string \<Rightarrow> bool" where
  "test r s = matchFrom r True (toLowerCase s)"

section \<open>Commit records\<close>

text \<open>
  A changed file of a commit. The source reads \<open>file.additions || 0\<close>, so a missing
  count is the number 0.
\<close>

record commit_file =
  filename :: string
  additions :: nat
  deletions :: nat
  changes :: nat

record stats =
  stat_additions :: nat
  stat_deletions :: nat

text \<open>
  A commit in the shape of the GitHub API, to which GitLab commits are normalised.
  \<open>message\<close> is \<open>commit.commit.message\<close>, \<open>author_name\<close> is
  \<open>commit.commit.author?.name\<close>, \<open>author_login\<close> is \<open>commit.author?.login\<close>.
  \<open>parents\<close>, \<open>files\<close> and \<open>stats\<close> may be missing (\<open>None\<close>).
\<close>

record commit =
  sha :: string
  message :: string
  author_name :: "string option"
  author_login :: "string option"
  html_url :: string
  parents :: "string list option"
  files :: "commit_file list option"
  stats :: "stats option"

text \<open>
  What the fetchers return: a commit and the mark \<open>unchanged\<close>, which they add to
  the object when the identifier is the one already known. A commit of the API has
  no such property.
\<close>

record latest =
  the_commit :: commit
  unchanged :: bool

record user =
  login :: string

record repo =
  full_name :: string
  default_branch :: string
  platform :: "string option"
  fork :: bool

section \<open>Commit analysis\<close>

datatype commit_type = Merge | Docs | Config | Ci | Tests | Localization | Code

definition docsPatterns :: "regex list" where
  "docsPatterns =
    [Cat [Lit ''.md'', Eol],
     Cat [Lit ''.mdx'', Eol],
     Cat [Lit ''.adoc'', Eol],
     Cat [Lit ''.rst'', Eol],
     Cat [Lit ''.txt'', Eol],
     Cat [Bol, Lit ''docs/''],
     Cat [Bol, Lit ''documentation/''],
     Cat [Bol, Lit ''.github/ISSUE_TEMPLATE''],
     Cat [Bol, Lit ''.github/PULL_REQUEST_TEMPLATE''],
     Cat [Bol, Lit ''README''],
     Cat [Bol, Lit ''CHANGELOG''],
     Cat [Bol, Lit ''CONTRIBUTING''],
     Cat [Bol, Lit ''AUTHORS''],
     Cat [Bol, Lit ''CREDITS''],
     Cat [Bol, Lit ''LICENSE''],
     Cat [Bol, Lit ''COPYING''],
     Cat [Bol, Lit ''man/''],
     Cat [Lit ''.1'', Eol],
     Cat [Bol, Lit ''wiki/'']]"

definition configPatterns :: "regex list" where
  "configPatterns =
    [Cat [Lit ''package.json'', Eol],
     Cat [Lit ''package-lock.json'', Eol],
     Cat [Lit ''yarn.lock'', Eol],
     Cat [Lit ''pnpm-lock.yaml'', Eol],
     Cat [Lit ''composer.json'', Eol],
     Lit ''Gemfile'',
     Cat [Lit ''requirements.txt'', Eol],
     Lit ''Pipfile'',
     Cat [Lit ''poetry.lock'', Eol],
     Cat [Lit ''Cargo.toml'', Eol],
     Cat [Lit ''go.mod'', Eol],
     Cat [Lit ''.env.example'', Eol],
     Cat [Lit ''.editorconfig'', Eol],
     Cat [Lit ''.gitignore'', Eol],
     Cat [Lit ''.gitattributes'', Eol],
     Cat [Lit ''.npmrc'', Eol],
     Cat [Lit ''.'', Alt [Lit ''eslintrc'', Lit ''prettierrc'']],
     Cat [Lit ''tsconfig.json'', Eol],
     Cat [Lit ''jsconfig.json'', Eol]]"

definition ciPatterns :: "regex list" where
  "ciPatterns =
    [Cat [Bol, Lit ''.github/workflows/''],
     Cat [Bol, Lit ''.gitlab-ci.yml'', Eol],
     Cat [Bol, Lit ''.travis.yml'', Eol],
     Cat [Bol, Lit ''Jenkinsfile'', Eol],
     Cat [Bol, Lit ''.circleci/''],
     Cat [Bol, Lit ''azure-pipelines.yml'', Eol],
     Cat [Bol, Lit ''Dockerfile'', Eol],
     Cat [Bol, Lit ''docker-compose''],
     Cat [Bol, Lit ''.dockerignore'', Eol]]"

definition sourceExt :: regex where
  "sourceExt = Alt [Lit ''js'', Lit ''ts'', Lit ''jsx'', Lit ''tsx'',
                    Lit ''py'', Lit ''rb'', Lit ''go'', Lit ''rs'']"

definition testsPatterns :: "regex list" where
  "testsPatterns =
    [Cat [Lit ''.'', Alt [Lit ''test'', Lit ''spec''], Lit ''.'', sourceExt, Eol],
     Cat [Bol, Lit ''test'', Opt (Lit ''s''), Lit ''/''],
     Cat [Bol, Lit ''__tests__/''],
     Cat [Bol, Lit ''spec/''],
     Cat [Lit ''.test'', Eol]]"

definition localizationPatterns :: "regex list" where
  "localizationPatterns =
    [Cat [Bol, Lit ''locale'', Opt (Lit ''s''), Lit ''/''],
     Cat [Bol, Lit ''i18n/''],
     Cat [Bol, Lit ''lang/''],
     Cat [Lit ''.'', Alt [Lit ''po'', Lit ''pot'', Lit ''mo''], Eol],
     Cat [Bol, Lit ''translation'', Opt (Lit ''s''), Lit ''/'']]"

text \<open>The object \<open>filePatterns\<close>, in the order of its keys.\<close>

definition filePatterns :: "(commit_type \<times> regex list) list" where
  "filePatterns =
    [(Docs, docsPatterns), (Config, configPatterns), (Ci, ciPatterns),
     (Tests, testsPatterns), (Localization, localizationPatterns)]"

text \<open>\<open>patterns.some(pattern => pattern.test(file.filename))\<close>\<close>

definition some_test :: "regex list \<Rightarrow> string \<Rightarrow> bool" where
  "some_test patterns name = list_ex (\<lambda>pattern. test pattern name) patterns"

text \<open>
  The inner loop over \<open>Object.entries(filePatterns)\<close>: the first family with a
  matching pattern takes the file (\<open>break\<close>); a file that no family takes is code.
\<close>

fun categorize :: "(commit_type \<times> regex list) list \<Rightarrow> string \<Rightarrow> commit_type" where
  "categorize [] name = Code"
| "categorize ((category, patterns) # rest) name =
     (if some_test patterns name then category else categorize rest name)"

text \<open>The counters \<open>categories\<close>, as a function from the category to its count.\<close>

type_synonym categories = "commit_type \<Rightarrow> nat"

definition categories0 :: categories where
  "categories0 = (\<lambda>_. 0)"

fun countCategories :: "commit_file list \<Rightarrow> categories \<Rightarrow> categories" where
  "countCategories [] cats = cats"
| "countCategories (f # fs) cats =
     (let category = categorize filePatterns (filename f)
      in countCategories fs (cats(category := cats category + 1)))"

datatype details =
    MergeDetails nat
  | FileCount nat
  | CodeDetails nat categories nat nat
  | NoDetails

record analysis =
  type :: commit_type
  details :: details

definition analyzeCommitType :: "commit \<Rightarrow> analysis" where
  "analyzeCommitType c =
    (if (case parents c of Some ps \<Rightarrow> length ps \<ge> 2 | None \<Rightarrow> False)
     then \<lparr>type = Merge,
           details = MergeDetails (case parents c of Some ps \<Rightarrow> length ps | None \<Rightarrow> 0)\<rparr>
     else
       (case files c of
          Some (f # fs) \<Rightarrow>
            (let cats = countCategories (f # fs) categories0;
                 totalFiles = length (f # fs)
             in if cats Docs = totalFiles then \<lparr>type = Docs, details = FileCount totalFiles\<rparr>
                else if cats Config = totalFiles then \<lparr>type = Config, details = FileCount totalFiles\<rparr>
                else if cats Ci = totalFiles then \<lparr>type = Ci, details = FileCount totalFiles\<rparr>
                else if cats Tests = totalFiles then \<lparr>type = Tests, details = FileCount totalFiles\<rparr>
                else if cats Localization = totalFiles
                  then \<lparr>type = Localization, details = FileCount totalFiles\<rparr>
                else \<lparr>type = Code,
                      details = CodeDetails totalFiles cats
                        (case stats c of Some st \<Rightarrow> stat_additions st | None \<Rightarrow> 0)
                        (case stats c of Some st \<Rightarrow> stat_deletions st | None \<Rightarrow> 0)\<rparr>)
        | _ \<Rightarrow> \<lparr>type = Code, details = NoDetails\<rparr>))"

section \<open>Critical files\<close>

record critical_file =
  cf_filename :: string
  cf_category :: string
  cf_weight :: nat
  cf_changes :: nat
  cf_additions :: nat
  cf_deletions :: nat

text \<open>The table \<open>criticalPatterns\<close>: pattern, category, weight.\<close>

definition entryPoint :: "string \<Rightarrow> regex" where
  "entryPoint name = Cat [Bol, Opt (Lit ''src/''), Lit name, Lit ''.'', sourceExt, Eol]"

definition criticalPatterns :: "(regex \<times> string \<times> nat) list" where
  "criticalPatterns =
    [(Lit ''auth'', ''security'', 3),
     (Lit ''security'', ''security'', 3),
     (Lit ''login'', ''security'', 3),
     (Lit ''password'', ''security'', 3),
     (Lit ''token'', ''security'', 3),
     (Lit ''session'', ''security'', 2),
     (Lit ''crypto'', ''security'', 3),
     (Lit ''encrypt'', ''security'', 3),
     (entryPoint ''index'', ''core'', 2),
     (entryPoint ''main'', ''core'', 2),
     (entryPoint ''app'', ''core'', 2),
     (entryPoint ''server'', ''core'', 2),
     (Lit ''kernel'', ''core'', 3),
     (Lit ''engine'', ''core'', 2),
     (Lit ''migration'', ''database'', 2),
     (Lit ''schema'', ''database'', 2),
     (Lit ''database'', ''database'', 2),
     (Cat [Lit ''model'', Opt (Lit ''s''), Lit ''/''], ''database'', 2),
     (Lit ''api/'', ''api'', 1),
     (Cat [Lit ''route'', Opt (Lit ''s''), Lit ''/''], ''api'', 1),
     (Cat [Lit ''controller'', Opt (Lit ''s''), Lit ''/''], ''api'', 1),
     (Cat [Lit ''endpoint'', Opt (Lit ''s''), Lit ''/''], ''api'', 1),
     (Lit ''webpack'', ''build'', 2),
     (Lit ''vite.config'', ''build'', 2),
     (Lit ''rollup'', ''build'', 2),
     (Lit ''babel'', ''build'', 1)]"

text \<open>The inner loop: the first pattern that matches the file name, then \<open>break\<close>.\<close>

fun firstCritical :: "(regex \<times> string \<times> nat) list \<Rightarrow> commit_file \<Rightarrow> critical_file option" where
  "firstCritical [] f = None"
| "firstCritical ((pattern, category, weight) # rest) f =
     (if test pattern (filename f)
      then Some \<lparr>cf_filename = filename f, cf_category = category, cf_weight = weight,
                 cf_changes = changes f, cf_additions = additions f,
                 cf_deletions = deletions f\<rparr>
      else firstCritical rest f)"

text \<open>The outer loop, on the state \<open>(criticalFiles, maxWeight)\<close>.\<close>

fun criticalLoop :: "commit_file list \<Rightarrow> critical_file list \<times> nat \<Rightarrow> critical_file list \<times> nat" where
  "criticalLoop [] acc = acc"
| "criticalLoop (f # fs) (criticalFiles, maxWeight) =
     (case firstCritical criticalPatterns f of
        None \<Rightarrow> criticalLoop fs (criticalFiles, maxWeight)
      | Some cf \<Rightarrow> criticalLoop fs (criticalFiles @ [cf], max maxWeight (cf_weight cf)))"

record critical_analysis =
  hasCritical :: bool
  criticalFiles :: "critical_file list"
  maxWeight :: nat
  isHighPriority :: bool

text \<open>
  Without files the source returns an object that has no \<open>maxWeight\<close> and no
  \<open>isHighPriority\<close>; the only reader tests \<open>isHighPriority\<close> for truth, and a missing
  property is not true.
\<close>

definition analyzeCriticalFiles :: "commit_file list option \<Rightarrow> critical_analysis" where
  "analyzeCriticalFiles fls =
    (case fls of
       Some (f # fs) \<Rightarrow>
         (let (found, maxW) = criticalLoop (f # fs) ([], 0)
          in \<lparr>hasCritical = length found > 0, criticalFiles = found, maxWeight = maxW,
              isHighPriority = (maxW \<ge> 3 \<or> length found \<ge> 3)\<rparr>)
     | _ \<Rightarrow> \<lparr>hasCritical = False, criticalFiles = [], maxWeight = 0, isHighPriority = False\<rparr>)"

section \<open>Priority\<close>

datatype priority = High | Medium | Low

definition HIGH_PRIORITY_KEYWORDS :: "string list" where
  "HIGH_PRIORITY_KEYWORDS = [''fix'', ''hotfix'', ''breaking'', ''critical'', ''urgent'', ''security'']"

definition lowKeywords :: "string list" where
  "lowKeywords = [''format'', ''formatting'', ''style'', ''chore'', ''refactor'', ''rename'']"

text \<open>
  \<open>deletions > 100 && additions < deletions * 0.3\<close>, on the exact numbers: the counts
  are integers, and rounding the product to a double does not move it across an integer.
\<close>

definition largeDeletion :: "commit_file \<Rightarrow> bool" where
  "largeDeletion f = (deletions f > 100 \<and> real (additions f) < real (deletions f) * 0.3)"

definition hasLargeDeletions :: "commit_file list \<Rightarrow> bool" where
  "hasLargeDeletions fs = list_ex largeDeletion fs"

text \<open>
  \<open>details.additions || details.deletions\<close> and then \<open>totalChanges > 500\<close>: the
  two properties exist only when the type is code with files, and a missing property or
  the number 0 is not true.
\<close>

fun largeChange :: "details \<Rightarrow> bool" where
  "largeChange (CodeDetails n cats a d) = ((a \<noteq> 0 \<or> d \<noteq> 0) \<and> a + d > 500)"
| "largeChange _ = False"

definition classifyCommitPriority :: "commit \<Rightarrow> repo \<Rightarrow> user option \<Rightarrow> priority" where
  "classifyCommitPriority c rp userData =
    (let analysis = analyzeCommitType c;
         ty = type analysis;
         det = details analysis
     in if ty \<in> set [Merge, Docs, Config, Ci, Localization] then Low
        else if ty = Tests then Medium
        else
          let msg = toLowerCase (message c);
              criticalAnalysis = analyzeCriticalFiles (files c)
          in if isHighPriority criticalAnalysis then High
             else if (case files c of
                        Some (f # fs) \<Rightarrow>
                          hasLargeDeletions (f # fs)
                          \<or> (hasCritical criticalAnalysis
                              \<and> length (criticalFiles criticalAnalysis) \<ge> 2)
                      | _ \<Rightarrow> False) then High
             else if list_ex (\<lambda>keyword. includesStr msg keyword) HIGH_PRIORITY_KEYWORDS then High
             else if hasCritical criticalAnalysis then Medium
             else if largeChange det then Medium
             else if list_ex (\<lambda>keyword. includesStr msg keyword) lowKeywords then Low
             else Medium)"

section \<open>Values of JavaScript\<close>

text \<open>\<open>a || b\<close> on strings that may be missing: the empty string counts as missing.\<close>

fun truthyStr :: "string option \<Rightarrow> bool" where
  "truthyStr None = False"
| "truthyStr (Some s) = (s \<noteq> [])"

definition orElse :: "string option \<Rightarrow> string \<Rightarrow> string" where
  "orElse v d = (case v of Some s \<Rightarrow> if s = [] then d else s | None \<Rightarrow> d)"

definition jsOr :: "string option \<Rightarrow> string option \<Rightarrow> string option" where
  "jsOr a b = (if truthyStr a then a else b)"

text \<open>The result of \<open>parseInt\<close>: an integer or \<open>NaN\<close>.\<close>

datatype jsnum = NaN | Num int

definition isWhiteSpace :: "char \<Rightarrow> bool" where
  "isWhiteSpace c = (c \<in> set [CHR '' '', CHR 0x09, CHR 0x0A, CHR 0x0B, CHR 0x0C, CHR 0x0D])"

definition digitValue :: "char \<Rightarrow> nat option" where
  "digitValue c = map_of (zip ''0123456789abcdefghijklmnopqrstuvwxyz'' [0..<36]) (toLowerChar c)"

fun digitsPrefix :: "nat \<Rightarrow> string \<Rightarrow> nat list" where
  "digitsPrefix radix [] = []"
| "digitsPrefix radix (c # s) =
     (case digitValue c of
        Some d \<Rightarrow> if d < radix then d # digitsPrefix radix s else []
      | None \<Rightarrow> [])"

definition numberOf :: "nat \<Rightarrow> nat list \<Rightarrow> nat" where
  "numberOf radix ds = foldl (\<lambda>acc d. acc * radix + d) 0 ds"

text \<open>
  \<open>parseInt(str)\<close> without a radix: leading white space, a sign, the prefix \<open>0x\<close> for
  radix 16, then the longest run of digits; no digit gives \<open>NaN\<close>.
\<close>

definition parseInt :: "string \<Rightarrow> jsnum" where
  "parseInt str =
    (let s = dropWhile isWhiteSpace str;
         (neg, s1) = (case s of
                        [] \<Rightarrow> (False, s)
                      | c # r \<Rightarrow> if c = CHR ''-'' then (True, r)
                                else if c = CHR ''+'' then (False, r) else (False, s));
         (radix, s2) = (if toLowerCase (take 2 s1) = ''0x'' then (16, drop 2 s1) else (10, s1));
         ds = digitsPrefix radix s2
     in if ds = [] then NaN
        else Num ((if neg then - 1 else 1) * int (numberOf radix ds)))"

fun num_le :: "jsnum \<Rightarrow> int \<Rightarrow> bool" where
  "num_le NaN k = False"
| "num_le (Num n) k = (n \<le> k)"

text \<open>\<open>rateLimitReset\<close> read as a condition: \<open>null\<close>, \<open>NaN\<close> and 0 are not true.\<close>

fun truthyReset :: "jsnum option \<Rightarrow> bool" where
  "truthyReset None = False"
| "truthyReset (Some NaN) = False"
| "truthyReset (Some (Num n)) = (n \<noteq> 0)"

text \<open>\<open>now < rateLimitReset\<close>, where \<open>now\<close> is a number of seconds.\<close>

fun before_reset :: "real \<Rightarrow> jsnum option \<Rightarrow> bool" where
  "before_reset t (Some (Num n)) = (t < real_of_int n)"
| "before_reset t _ = False"

fun reset_value :: "jsnum option \<Rightarrow> real" where
  "reset_value (Some (Num n)) = real_of_int n"
| "reset_value _ = 0"

definition hexDigit :: "nat \<Rightarrow> char" where
  "hexDigit n = ''0123456789ABCDEF'' ! (n mod 16)"

definition unreserved :: "char \<Rightarrow> bool" where
  "unreserved c =
     (c \<in> set (''ABCDEFGHIJKLMNOPQRSTUVWXYZabcdefghijklmnopqrstuvwxyz0123456789-_.!~*()''
               @ [CHR 0x27]))"

definition encodeURIComponent :: "string \<Rightarrow> string" where
  "encodeURIComponent s =
     concat (map (\<lambda>c. if unreserved c then [c]
                       else [CHR ''%'', hexDigit (of_char c div 16), hexDigit (of_char c mod 16)]) s)"

section \<open>The two hosting platforms\<close>

record gitlab_commit =
  gl_id :: string
  gl_message :: string
  gl_author_name :: string
  gl_web_url :: string
  gl_parent_ids :: "string list option"

record gitlab_diff =
  new_path :: "string option"
  old_path :: "string option"
  diff_text :: "string option"

record gitlab_project =
  path_with_namespace :: string
  forked_from_project :: bool
  gl_default_branch :: "string option"

text \<open>
  The body of a response, as \<open>response.json()\<close> gives it to the caller that asked for
  it. \<open>Unreadable\<close> is a body that is not JSON or not of the expected shape.
\<close>

datatype body =
    Commits "commit list"
  | CommitDetail commit
  | Repos "repo list"
  | GitLabCommits "gitlab_commit list"
  | Diffs "gitlab_diff list"
  | Projects "gitlab_project list"
  | Unreadable

record response =
  status :: nat
  headers :: "string \<Rightarrow> string option"
  body :: body

definition ok :: "response \<Rightarrow> bool" where
  "ok r = (200 \<le> status r \<and> status r \<le> 299)"

datatype net_result = NetworkError | Response response

datatype error =
    NotAuthenticated
  | RateLimited int
  | FetchFailed nat
  | NetworkFailure
  | BadBody

record rate_limit =
  remaining :: jsnum
  reset :: jsnum
  limit :: jsnum

record settings =
  checkInterval :: nat
  ignoreForks :: bool
  ignoreOwnCommits :: bool
  enabledRepos :: "string \<Rightarrow> bool option"
  notificationsEnabled :: bool
  releaseNotificationsEnabled :: bool

text \<open>The object stored under the key \<open>settings\<close>: any property may be missing.\<close>

record stored_settings =
  s_checkInterval :: "nat option"
  s_ignoreForks :: "bool option"
  s_ignoreOwnCommits :: "bool option"
  s_enabledRepos :: "(string \<Rightarrow> bool option) option"
  s_notificationsEnabled :: "bool option"
  s_releaseNotificationsEnabled :: "bool option"

text \<open>An entry of the notification history.\<close>

record notification =
  n_id :: string
  n_type :: string
  n_commitType :: "commit_type option"
  n_platform :: string
  n_repo :: string
  n_author :: "string option"
  n_message :: "string option"
  n_priority :: "priority option"
  n_sha :: "string option"
  n_url :: string
  n_filesChanged :: nat
  n_additions :: nat
  n_deletions :: nat
  timestamp :: "nat option"

text \<open>
  The world outside the functions: the module variables that track the rate limits, the
  extension's storage, the clock and the network. \<open>Date.now()\<close> reads the next value
  of \<open>clock\<close>; the answer of the network to a request may depend on how many requests
  came before; \<open>requests\<close> records the requests made, \<open>shown\<close> the notifications
  created.
\<close>

record world =
  rateLimitRemaining :: jsnum
  rateLimitReset :: "jsnum option"
  gitlabRateLimitRemaining :: jsnum
  gitlabRateLimitReset :: "jsnum option"
  githubToken :: "string option"
  gitlabToken :: "string option"
  st_settings :: "stored_settings option"
  st_userData :: "user option"
  st_gitlabUserData :: "user option"
  st_rateLimit :: "rate_limit option"
  st_gitlabRateLimit :: "rate_limit option"
  st_lastCommits :: "(string \<Rightarrow> string option) option"
  st_repositories :: "repo list option"
  st_repositoriesUpdated :: "nat option"
  st_gitlabRepositories :: "repo list option"
  st_gitlabRepositoriesUpdated :: "nat option"
  st_notificationHistory :: "notification list option"
  st_unreadCount :: "nat option"
  st_lastCheckTime :: "nat option"
  clock :: "nat \<Rightarrow> nat"
  ticks :: nat
  network :: "nat \<Rightarrow> string \<Rightarrow> net_result"
  requests :: "string list"
  shown :: "string list"

definition Date_now :: "world \<Rightarrow> nat \<times> world" where
  "Date_now w = (clock w (ticks w), w\<lparr>ticks := Suc (ticks w)\<rparr>)"

text \<open>\<open>fetch(url, ...)\<close>: the request is recorded, the network answers or fails.\<close>

definition fetch :: "string \<Rightarrow> world \<Rightarrow> net_result \<times> world" where
  "fetch url w = (network w (length (requests w)) url, w\<lparr>requests := requests w @ [url]\<rparr>)"

definition GITHUB_API_BASE :: string where
  "GITHUB_API_BASE = ''https://api.github.com''"

definition GITLAB_API_BASE :: string where
  "GITLAB_API_BASE = ''https://gitlab.com/api/v4''"

text \<open>\<open>githubToken || null\<close>\<close>

definition getGitHubAccessToken :: "world \<Rightarrow> string option" where
  "getGitHubAccessToken w = (if truthyStr (githubToken w) then githubToken w else None)"

definition getGitLabAccessToken :: "world \<Rightarrow> string option" where
  "getGitLabAccessToken w = (if truthyStr (gitlabToken w) then gitlabToken w else None)"

definition getAccessToken :: "world \<Rightarrow> string option" where
  "getAccessToken w = getGitHubAccessToken w"

text \<open>\<open>parseInt(response.headers.get(name) || dflt)\<close>\<close>

definition headerInt :: "response \<Rightarrow> string \<Rightarrow> string \<Rightarrow> jsnum" where
  "headerInt r name dflt = parseInt (orElse (headers r name) dflt)"

text \<open>\<open>Math.ceil((rateLimitReset - now) / 60)\<close>\<close>

definition waitTime :: "jsnum option \<Rightarrow> real \<Rightarrow> int" where
  "waitTime rst t = \<lceil>(reset_value rst - t) / 60\<rceil>"

definition fetchGitHub :: "string \<Rightarrow> world \<Rightarrow> (error + response) \<times> world" where
  "fetchGitHub endpoint w =
    (case getAccessToken w of
       None \<Rightarrow> (Inl NotAuthenticated, w)
     | Some token \<Rightarrow>
         let (limited, w1) =
               (if num_le (rateLimitRemaining w) 10 \<and> truthyReset (rateLimitReset w)
                then let (ms, w') = Date_now w;
                         t = real ms / 1000
                     in if before_reset t (rateLimitReset w)
                        then (Some (waitTime (rateLimitReset w) t), w')
                        else (None, w')
                else (None, w))
         in case limited of
              Some minutes \<Rightarrow> (Inl (RateLimited minutes), w1)
            | None \<Rightarrow>
                let url = (if startsWith endpoint ''http'' then endpoint
                           else GITHUB_API_BASE @ endpoint)
                in case fetch url w1 of
                     (NetworkError, w2) \<Rightarrow> (Inl NetworkFailure, w2)
                   | (Response r, w2) \<Rightarrow>
                       let rem = headerInt r ''X-RateLimit-Remaining'' ''5000'';
                           rst = headerInt r ''X-RateLimit-Reset'' ''0''
                       in (Inr r,
                           w2\<lparr>rateLimitRemaining := rem,
                              rateLimitReset := Some rst,
                              st_rateLimit := Some \<lparr>remaining = rem, reset = rst,
                                limit = headerInt r ''X-RateLimit-Limit'' ''5000''\<rparr>\<rparr>))"

definition fetchGitLab :: "string \<Rightarrow> world \<Rightarrow> (error + response) \<times> world" where
  "fetchGitLab endpoint w =
    (case getGitLabAccessToken w of
       None \<Rightarrow> (Inl NotAuthenticated, w)
     | Some token \<Rightarrow>
         let (limited, w1) =
               (if num_le (gitlabRateLimitRemaining w) 10 \<and> truthyReset (gitlabRateLimitReset w)
                then let (ms, w') = Date_now w;
                         t = real ms / 1000
                     in if before_reset t (gitlabRateLimitReset w)
                        then (Some (waitTime (gitlabRateLimitReset w) t), w')
                        else (None, w')
                else (None, w))
         in case limited of
              Some minutes \<Rightarrow> (Inl (RateLimited minutes), w1)
            | None \<Rightarrow>
                let url = (if startsWith endpoint ''http'' then endpoint
                           else GITLAB_API_BASE @ endpoint)
                in case fetch url w1 of
                     (NetworkError, w2) \<Rightarrow> (Inl NetworkFailure, w2)
                   | (Response r, w2) \<Rightarrow>
                       let rem = headerInt r ''RateLimit-Remaining'' ''2000'';
                           rst = headerInt r ''RateLimit-Reset'' ''0''
                       in (Inr r,
                           w2\<lparr>gitlabRateLimitRemaining := rem,
                              gitlabRateLimitReset := Some rst,
                              st_gitlabRateLimit := Some \<lparr>remaining = rem, reset = rst,
                                limit = headerInt r ''RateLimit-Limit'' ''2000''\<rparr>\<rparr>))"

section \<open>Fetching the latest commit\<close>

text \<open>The endpoints of the request for the latest commit of the default branch.\<close>

definition githubCommitsEndpoint :: "repo \<Rightarrow> string" where
  "githubCommitsEndpoint rp =
     ''/repos/'' @ full_name rp @ ''/commits?sha='' @ default_branch rp @ ''&per_page=1''"

definition gitlabCommitsEndpoint :: "repo \<Rightarrow> string" where
  "gitlabCommitsEndpoint rp =
     ''/projects/'' @ encodeURIComponent (full_name rp) @ ''/repository/commits?ref_name=''
       @ default_branch rp @ ''&per_page=1''"

text \<open>
  The body of the \<open>try\<close> block of \<open>fetchLatestGitHubCommit\<close>: \<open>Inl\<close> is an
  exception thrown inside it.
\<close>

definition fetchLatestGitHubCommit_try ::
  "repo \<Rightarrow> string option \<Rightarrow> world \<Rightarrow> (error + latest option) \<times> world" where
  "fetchLatestGitHubCommit_try rp lastKnownSha w =
    (case fetchGitHub (githubCommitsEndpoint rp) w of
       (Inl e, w1) \<Rightarrow> (Inl e, w1)
     | (Inr listResponse, w1) \<Rightarrow>
         if \<not> ok listResponse
         then (if status listResponse = 409 then (Inr None, w1)
               else (Inl (FetchFailed (status listResponse)), w1))
         else
           (case body listResponse of
              Commits [] \<Rightarrow> (Inr None, w1)
            | Commits (c0 # rest) \<Rightarrow>
                let latestSha = sha c0
                in if truthyStr lastKnownSha \<and> Some latestSha = lastKnownSha
                   then (Inr (Some \<lparr>the_commit = c0, unchanged = True\<rparr>), w1)
                   else
                     (case fetchGitHub (''/repos/'' @ full_name rp @ ''/commits/'' @ latestSha) w1 of
                        (Inl e, w2) \<Rightarrow> (Inl e, w2)
                      | (Inr detailResponse, w2) \<Rightarrow>
                          if \<not> ok detailResponse
                          then (Inr (Some \<lparr>the_commit = c0, unchanged = False\<rparr>), w2)
                          else (case body detailResponse of
                                  CommitDetail d \<Rightarrow>
                                    (Inr (Some \<lparr>the_commit = d, unchanged = False\<rparr>), w2)
                                | _ \<Rightarrow> (Inl BadBody, w2)))
            | _ \<Rightarrow> (Inl BadBody, w1)))"

text \<open>The \<open>catch\<close> block logs the error and returns \<open>null\<close>.\<close>

definition fetchLatestGitHubCommit :: "repo \<Rightarrow> string option \<Rightarrow> world \<Rightarrow> latest option \<times> world" where
  "fetchLatestGitHubCommit rp lastKnownSha w =
    (case fetchLatestGitHubCommit_try rp lastKnownSha w of
       (Inl e, w') \<Rightarrow> (None, w')
     | (Inr r, w') \<Rightarrow> (r, w'))"

definition isLineTerminator :: "char \<Rightarrow> bool" where
  "isLineTerminator c = (c = CHR 0x0A \<or> c = CHR 0x0D)"

text \<open>
  \<open>(text.match(/^\+[^+]/gm) || []).length\<close> and the same for \<open>-\<close>: the number of
  lines that begin with the sign followed by a character that is not the sign. The flag
  tells whether the position is the start of a line.
\<close>

fun countSignLines :: "char \<Rightarrow> bool \<Rightarrow> string \<Rightarrow> nat" where
  "countSignLines sg b [] = 0"
| "countSignLines sg b [c] = 0"
| "countSignLines sg b (c # d # s) =
     (if b \<and> c = sg \<and> d \<noteq> sg
      then 1 + countSignLines sg (isLineTerminator d) s
      else countSignLines sg (isLineTerminator c) (d # s))"

text \<open>\<open>text.split('\n')\<close>\<close>

fun splitLines :: "string \<Rightarrow> string list" where
  "splitLines [] = [[]]"
| "splitLines (c # s) =
     (if c = CHR 0x0A then [] # splitLines s
      else (case splitLines s of l # ls \<Rightarrow> (c # l) # ls | [] \<Rightarrow> [[c]]))"

definition diffToFile :: "gitlab_diff \<Rightarrow> commit_file" where
  "diffToFile d =
    \<lparr>filename = orElse (new_path d) (orElse (old_path d) []),
     additions = (case diff_text d of Some t \<Rightarrow> countSignLines (CHR ''+'') True t | None \<Rightarrow> 0),
     deletions = (case diff_text d of Some t \<Rightarrow> countSignLines (CHR ''-'') True t | None \<Rightarrow> 0),
     changes = (case diff_text d of
                  Some t \<Rightarrow> if t = [] then 0 else length (splitLines t)
                | None \<Rightarrow> 0)\<rparr>"

text \<open>
  The inner \<open>try\<close> of \<open>fetchLatestGitLabCommit\<close>: files and stats from the diff of the
  commit; they stay empty when the request or the body fails.
\<close>

definition fetchGitLabDiff :: "string \<Rightarrow> string \<Rightarrow> world \<Rightarrow> (commit_file list \<times> stats) \<times> world" where
  "fetchGitLabDiff projectId latestSha w =
    (case fetchGitLab (''/projects/'' @ projectId @ ''/repository/commits/'' @ latestSha
                        @ ''/diff'') w of
       (Inl e, w1) \<Rightarrow> (([], \<lparr>stat_additions = 0, stat_deletions = 0\<rparr>), w1)
     | (Inr diffResponse, w1) \<Rightarrow>
         if ok diffResponse
         then (case body diffResponse of
                 Diffs diffList \<Rightarrow>
                   let fs = map diffToFile diffList
                   in ((fs, \<lparr>stat_additions = sum_list (map additions fs),
                             stat_deletions = sum_list (map deletions fs)\<rparr>), w1)
               | _ \<Rightarrow> (([], \<lparr>stat_additions = 0, stat_deletions = 0\<rparr>), w1))
         else (([], \<lparr>stat_additions = 0, stat_deletions = 0\<rparr>), w1))"

text \<open>
  The object \<open>{ sha: latestSha, unchanged: true }\<close>: it has no other property, and its
  only reader returns as soon as it has seen \<open>unchanged\<close>.
\<close>

definition unchangedCommit :: "string \<Rightarrow> latest" where
  "unchangedCommit latestSha =
    \<lparr>the_commit = \<lparr>sha = latestSha, message = [], author_name = None, author_login = None,
                    html_url = [], parents = None, files = None, stats = None\<rparr>,
     unchanged = True\<rparr>"

definition fetchLatestGitLabCommit_try ::
  "repo \<Rightarrow> string option \<Rightarrow> world \<Rightarrow> (error + latest option) \<times> world" where
  "fetchLatestGitLabCommit_try rp lastKnownSha w =
    (let projectId = encodeURIComponent (full_name rp)
     in case fetchGitLab (gitlabCommitsEndpoint rp) w of
          (Inl e, w1) \<Rightarrow> (Inl e, w1)
        | (Inr listResponse, w1) \<Rightarrow>
            if \<not> ok listResponse
            then (if status listResponse = 404 then (Inr None, w1)
                  else (Inl (FetchFailed (status listResponse)), w1))
            else
              (case body listResponse of
                 GitLabCommits [] \<Rightarrow> (Inr None, w1)
               | GitLabCommits (c0 # rest) \<Rightarrow>
                   let latestSha = gl_id c0
                   in if truthyStr lastKnownSha \<and> Some latestSha = lastKnownSha
                      then (Inr (Some (unchangedCommit latestSha)), w1)
                      else
                        let ((fs, st), w2) = fetchGitLabDiff projectId latestSha w1
                        in (Inr (Some
                              \<lparr>the_commit =
                                 \<lparr>sha = gl_id c0, message = gl_message c0,
                                  author_name = Some (gl_author_name c0),
                                  author_login = Some (gl_author_name c0),
                                  html_url = gl_web_url c0,
                                  parents = Some (case gl_parent_ids c0 of
                                                    Some ids \<Rightarrow> ids | None \<Rightarrow> []),
                                  files = Some fs, stats = Some st\<rparr>,
                               unchanged = False\<rparr>), w2)
               | _ \<Rightarrow> (Inl BadBody, w1)))"

definition fetchLatestGitLabCommit :: "repo \<Rightarrow> string option \<Rightarrow> world \<Rightarrow> latest option \<times> world" where
  "fetchLatestGitLabCommit rp lastKnownSha w =
    (case fetchLatestGitLabCommit_try rp lastKnownSha w of
       (Inl e, w') \<Rightarrow> (None, w')
     | (Inr r, w') \<Rightarrow> (r, w'))"

definition fetchLatestCommit :: "repo \<Rightarrow> string option \<Rightarrow> world \<Rightarrow> latest option \<times> world" where
  "fetchLatestCommit rp lastKnownSha w =
    (if platform rp = Some ''gitlab'' then fetchLatestGitLabCommit rp lastKnownSha w
     else fetchLatestGitHubCommit rp lastKnownSha w)"

section \<open>Checking one repository\<close>

record check_result =
  cr_repo :: repo
  cr_commit :: commit
  isNew :: bool
  cr_priority :: "priority option"
  repoKey :: string

text \<open>\<open>`${repo.platform || 'github'}:${repo.full_name}`\<close>\<close>

definition repoKeyOf :: "repo \<Rightarrow> string" where
  "repoKeyOf rp = orElse (platform rp) ''github'' @ '':'' @ full_name rp"

text \<open>\<open>lastCommits[repoKey] || lastCommits[repo.full_name]\<close>\<close>

definition lastKnownShaOf :: "(string \<Rightarrow> string option) \<Rightarrow> repo \<Rightarrow> string option" where
  "lastKnownShaOf lastCommits rp = jsOr (lastCommits (repoKeyOf rp)) (lastCommits (full_name rp))"

definition currentUserOf :: "repo \<Rightarrow> user option \<Rightarrow> user option \<Rightarrow> user option" where
  "currentUserOf rp userData gitlabUserData =
     (if platform rp = Some ''gitlab'' then gitlabUserData else userData)"

definition checkRepoForNewCommits ::
  "repo \<Rightarrow> (string \<Rightarrow> string option) \<Rightarrow> settings \<Rightarrow> user option \<Rightarrow> user option \<Rightarrow> world
     \<Rightarrow> check_result option \<times> world" where
  "checkRepoForNewCommits rp lastCommits sets userData gitlabUserData w =
    (let key = repoKeyOf rp
     in if enabledRepos sets key = Some False \<or> enabledRepos sets (full_name rp) = Some False
        then (None, w)
        else
          let lastKnownSha = lastKnownShaOf lastCommits rp
          in case fetchLatestCommit rp lastKnownSha w of
               (None, w') \<Rightarrow> (None, w')
             | (Some fetched, w') \<Rightarrow>
                 let latestCommit = the_commit fetched
                 in
                 if unchanged fetched then (None, w')
                 else if \<not> truthyStr lastKnownSha
                 then (Some \<lparr>cr_repo = rp, cr_commit = latestCommit, isNew = False,
                             cr_priority = None, repoKey = key\<rparr>, w')
                 else if Some (sha latestCommit) \<noteq> lastKnownSha
                 then
                   (if ignoreOwnCommits sets
                       \<and> (case currentUserOf rp userData gitlabUserData of
                             Some currentUser \<Rightarrow> author_login latestCommit = Some (login currentUser)
                           | None \<Rightarrow> False)
                    then (Some \<lparr>cr_repo = rp, cr_commit = latestCommit, isNew = False,
                                cr_priority = None, repoKey = key\<rparr>, w')
                    else
                      let currentUser = currentUserOf rp userData gitlabUserData;
                          prio = classifyCommitPriority latestCommit rp currentUser
                      in (Some \<lparr>cr_repo = rp, cr_commit = latestCommit, isNew = True,
                                 cr_priority = Some prio, repoKey = key\<rparr>, w'))
                 else (None, w'))"

section \<open>Settings and the repository directory\<close>

definition DEFAULT_CHECK_INTERVAL :: nat where
  "DEFAULT_CHECK_INTERVAL = 5"

definition getOr :: "'a option \<Rightarrow> 'a \<Rightarrow> 'a" where
  "getOr v d = (case v of Some x \<Rightarrow> x | None \<Rightarrow> d)"

text \<open>The defaults, overridden by the properties of the stored object.\<close>

definition getSettings :: "world \<Rightarrow> settings" where
  "getSettings w =
    (case st_settings w of
       None \<Rightarrow>
         \<lparr>checkInterval = DEFAULT_CHECK_INTERVAL, ignoreForks = True, ignoreOwnCommits = False,
          enabledRepos = (\<lambda>_. None), notificationsEnabled = True,
          releaseNotificationsEnabled = True\<rparr>
     | Some st \<Rightarrow>
         \<lparr>checkInterval = getOr (s_checkInterval st) DEFAULT_CHECK_INTERVAL,
          ignoreForks = getOr (s_ignoreForks st) True,
          ignoreOwnCommits = getOr (s_ignoreOwnCommits st) False,
          enabledRepos = getOr (s_enabledRepos st) (\<lambda>_. None),
          notificationsEnabled = getOr (s_notificationsEnabled st) True,
          releaseNotificationsEnabled = getOr (s_releaseNotificationsEnabled st) True\<rparr>)"

text \<open>A number inside a template string.\<close>

fun showNat :: "nat \<Rightarrow> string" where
  "showNat n = (if n < 10 then [hexDigit n] else showNat (n div 10) @ [hexDigit (n mod 10)])"

definition reposEndpoint :: "nat \<Rightarrow> string" where
  "reposEndpoint page =
     ''/user/repos?affiliation=owner,collaborator,organization_member&per_page=100&page=''
       @ showNat page"

text \<open>
  The loop \<open>while (hasMore)\<close> of \<open>fetchUserRepositories\<close>, on the state
  \<open>(page, repos)\<close>. An empty page ends it (\<open>hasMore = false\<close>); after a page with
  entries, \<open>page\<close> is incremented and the loop is left when \<open>page > 50\<close>.
\<close>

function fetchUserRepositories_loop ::
  "settings \<Rightarrow> nat \<Rightarrow> repo list \<Rightarrow> world \<Rightarrow> (error + repo list) \<times> world" where
  "fetchUserRepositories_loop sets page repos w =
    (case fetchGitHub (reposEndpoint page) w of
       (Inl e, w1) \<Rightarrow> (Inl e, w1)
     | (Inr resp, w1) \<Rightarrow>
         if \<not> ok resp then (Inl (FetchFailed (status resp)), w1)
         else
           (case body resp of
              Repos pageRepos \<Rightarrow>
                if length pageRepos = 0 then (Inr repos, w1)
                else
                  let filteredRepos =
                        map (\<lambda>r. r\<lparr>platform := Some ''github''\<rparr>)
                          (filter (\<lambda>r. \<not> ignoreForks sets \<or> \<not> fork r) pageRepos)
                  in if page + 1 > 50 then (Inr (repos @ filteredRepos), w1)
                     else fetchUserRepositories_loop sets (page + 1) (repos @ filteredRepos) w1
            | _ \<Rightarrow> (Inl BadBody, w1)))"
  by pat_completeness auto
termination
  by (relation "measure (\<lambda>(sets, page, repos, w). 51 - page)") auto

declare fetchUserRepositories_loop.simps [simp del]

definition fetchUserRepositories :: "world \<Rightarrow> (error + repo list) \<times> world" where
  "fetchUserRepositories w =
    (let sets = getSettings w
     in case fetchUserRepositories_loop sets 1 [] w of
          (Inl e, w1) \<Rightarrow> (Inl e, w1)
        | (Inr repos, w1) \<Rightarrow>
            let (t, w2) = Date_now w1
            in (Inr repos, w2\<lparr>st_repositories := Some repos, st_repositoriesUpdated := Some t\<rparr>))"










section \<open>Notifications\<close>

text \<open>
  \<open>storeNotificationHistory\<close>: the entry, stamped with the time, goes to the front
  (\<open>unshift\<close>) and the first 100 entries are stored (\<open>slice(0, 100)\<close>).
\<close>

definition storeNotificationHistory :: "notification \<Rightarrow> world \<Rightarrow> world" where
  "storeNotificationHistory n w =
    (let notificationHistory = getOr (st_notificationHistory w) [];
         (t, w1) = Date_now w
     in w1\<lparr>st_notificationHistory := Some (take 100 (n\<lparr>timestamp := Some t\<rparr> # notificationHistory))\<rparr>)"

text \<open>\<open>l.trim()\<close> read as a condition: the line has a character that is not white space.\<close>

definition nonBlank :: "string \<Rightarrow> bool" where
  "nonBlank l = list_ex (\<lambda>c. \<not> isWhiteSpace c) l"

text \<open>
  \<open>sendCommitNotification\<close>. Of the notification that is shown, the identifier is
  recorded; the entry for the history is the one of the source.
\<close>

definition sendCommitNotification :: "repo \<Rightarrow> commit \<Rightarrow> priority option \<Rightarrow> world \<Rightarrow> world" where
  "sendCommitNotification rp c prio w =
    (let sets = getSettings w
     in if \<not> notificationsEnabled sets then w
        else
          let commitType = type (analyzeCommitType c);
              authorName = orElse (author_name c) (orElse (author_login c) ''Unknown'');
              messageLines = filter nonBlank (splitLines (message c));
              title = (case messageLines of l # ls \<Rightarrow> l | [] \<Rightarrow> ''No message'');
              shortSha = take 7 (sha c);
              filesChanged = (case files c of Some fs \<Rightarrow> length fs | None \<Rightarrow> 0);
              adds = (case stats c of Some st \<Rightarrow> stat_additions st | None \<Rightarrow> 0);
              dels = (case stats c of Some st \<Rightarrow> stat_deletions st | None \<Rightarrow> 0);
              plat = orElse (platform rp) ''github'';
              notificationId = plat @ ''-commit-'' @ full_name rp @ ''-'' @ shortSha;
              w1 = w\<lparr>shown := shown w @ [notificationId]\<rparr>
          in storeNotificationHistory
               \<lparr>n_id = notificationId, n_type = ''commit'', n_commitType = Some commitType,
                n_platform = plat, n_repo = full_name rp, n_author = Some authorName,
                n_message = Some title, n_priority = prio, n_sha = Some (sha c),
                n_url = html_url c, n_filesChanged = filesChanged, n_additions = adds,
                n_deletions = dels, timestamp = None\<rparr> w1)"


section \<open>The sweep over all repositories\<close>


text \<open>
  \<open>Promise.all(batch.map(repo => checkRepoForNewCommits(...)))\<close>: every check of the
  batch runs, here one after the other in the order of the batch, and the results come
  back in that order.
\<close>

fun checkBatch ::
  "repo list \<Rightarrow> (string \<Rightarrow> string option) \<Rightarrow> settings \<Rightarrow> user option \<Rightarrow> user option \<Rightarrow> world
     \<Rightarrow> check_result option list \<times> world" where
  "checkBatch [] lastCommits sets userData gitlabUserData w = ([], w)"
| "checkBatch (rp # rest) lastCommits sets userData gitlabUserData w =
     (let (result, w1) = checkRepoForNewCommits rp lastCommits sets userData gitlabUserData w;
          (results, w2) = checkBatch rest lastCommits sets userData gitlabUserData w1
      in (result # results, w2))"






section \<open>What a sweep leaves untouched\<close>

text \<open>
  The parts of the world that no function of the sweep writes before the last-seen map is
  stored: the network, the clock, the tokens, and the stored settings, identities and
  last-seen map.
\<close>

definition stable :: "world \<Rightarrow> world \<Rightarrow> bool" where
  "stable w w' =
    (network w' = network w \<and> clock w' = clock w
     \<and> githubToken w' = githubToken w \<and> gitlabToken w' = gitlabToken w
     \<and> st_settings w' = st_settings w \<and> st_userData w' = st_userData w
     \<and> st_gitlabUserData w' = st_gitlabUserData w \<and> st_lastCommits w' = st_lastCommits w)"

text \<open>The first request of a check: the list of commits of the repository.\<close>

definition commitsUrl :: "repo \<Rightarrow> string" where
  "commitsUrl rp =
     (if platform rp = Some ''gitlab'' then GITLAB_API_BASE @ gitlabCommitsEndpoint rp
      else GITHUB_API_BASE @ githubCommitsEndpoint rp)"



definition sweepResults :: "repo list \<Rightarrow> world \<Rightarrow> world \<Rightarrow> check_result option list" where
  "sweepResults repos w w1 =
     fst (checkBatch repos (getOr (st_lastCommits w) (\<lambda>_. None)) (getSettings w)
            (st_userData w) (st_gitlabUserData w) w1)"

section \<open>Notions used in the statements\<close>

text \<open>The changed files of a commit, none when the commit carries no file list.\<close>

definition filesOf :: "commit \<Rightarrow> commit_file list" where
  "filesOf c = (case files c of Some fs \<Rightarrow> fs | None \<Rightarrow> [])"

text \<open>A file whose name matches one of the critical patterns.\<close>

definition matchesCritical :: "commit_file \<Rightarrow> bool" where
  "matchesCritical f =
     list_ex (\<lambda>(pattern, category, weight). test pattern (filename f)) criticalPatterns"

text \<open>The six counters of \<open>categories\<close>.\<close>

definition sixCategories :: "commit_type list" where
  "sixCategories = [Docs, Config, Ci, Tests, Localization, Code]"

text \<open>
  Notifications handed to \<open>storeNotificationHistory\<close> one after the other, each with
  the time stamp it receives: the first reads the clock at position \<open>t\<close>, the next at
  \<open>t + 1\<close>, and so on.
\<close>

fun stampAll :: "(nat \<Rightarrow> nat) \<Rightarrow> nat \<Rightarrow> notification list \<Rightarrow> notification list" where
  "stampAll clk t [] = []"
| "stampAll clk t (n # ns) = n\<lparr>timestamp := Some (clk t)\<rparr> # stampAll clk (Suc t) ns"

definition stampOf :: "notification \<Rightarrow> nat" where
  "stampOf n = (case timestamp n of Some t \<Rightarrow> t | None \<Rightarrow> 0)"

text \<open>The request for one page of repositories, and a server that honours \<open>per_page=100\<close>.\<close>

definition reposUrl :: "nat \<Rightarrow> string" where
  "reposUrl page = GITHUB_API_BASE @ reposEndpoint page"

definition honoursPerPage :: "world \<Rightarrow> bool" where
  "honoursPerPage w =
     (\<forall>n url r rs. network w n url = Response r \<and> body r = Repos rs \<longrightarrow> length rs \<le> 100)"

section \<open>Example data\<close>

definition example_repo :: repo where
  "example_repo = \<lparr>full_name = ''acme/app'', default_branch = ''main'',
     platform = Some ''github'', fork = False\<rparr>"

definition merge_example :: commit where
  "merge_example =
    \<lparr>sha = ''9f2c1a7'', message = ''Merge branch login-fix: critical security fix'',
     author_name = Some ''Dana'', author_login = Some ''dana'',
     html_url = ''https://github.com/acme/app/commit/9f2c1a7'',
     parents = Some [''1111111'', ''2222222''],
     files = Some [\<lparr>filename = ''auth/login.go'', additions = 2, deletions = 400, changes = 402\<rparr>],
     stats = Some \<lparr>stat_additions = 2, stat_deletions = 400\<rparr>\<rparr>"

text \<open>A commit that touches one session file and calls itself a refactoring.\<close>

definition session_commit :: commit where
  "session_commit =
    \<lparr>sha = ''9f2c1a7'', message = ''Refactor session handling'',
     author_name = Some ''Dana'', author_login = Some ''dana'',
     html_url = ''https://github.com/acme/r11/commit/9f2c1a7'',
     parents = Some [''1111111''],
     files = Some [\<lparr>filename = ''src/session.js'', additions = 12, deletions = 7, changes = 19\<rparr>],
     stats = Some \<lparr>stat_additions = 12, stat_deletions = 7\<rparr>\<rparr>"

text \<open>The same commit as the list of commits shows it: without files and stats.\<close>

definition session_commit_basic :: commit where
  "session_commit_basic = session_commit\<lparr>files := None, stats := None\<rparr>"

definition example_user :: user where
  "example_user = \<lparr>login = ''dana''\<rparr>"

definition watched :: "nat \<Rightarrow> repo" where
  "watched n = \<lparr>full_name = ''acme/r'' @ showNat n, default_branch = ''main'',
     platform = Some ''github'', fork = False\<rparr>"

definition example_repos :: "repo list" where
  "example_repos = map watched [10..<20]"

text \<open>
  A network on which the commits of \<open>acme/r10\<close> cannot be reached, \<open>acme/r15\<close> answers
  404, and every other repository has \<open>session_commit\<close> as its latest commit.
\<close>

definition example_network :: "nat \<Rightarrow> string \<Rightarrow> net_result" where
  "example_network n url =
    (if url = commitsUrl (watched 10) then NetworkError
     else if url = commitsUrl (watched 15)
       then Response \<lparr>status = 404, headers = (\<lambda>_. None), body = Unreadable\<rparr>
     else if includesStr url ''per_page=1''
       then Response \<lparr>status = 200, headers = (\<lambda>_. None), body = Commits [session_commit_basic]\<rparr>
     else Response \<lparr>status = 200, headers = (\<lambda>_. None), body = CommitDetail session_commit\<rparr>)"

definition example_settings :: stored_settings where
  "example_settings =
    \<lparr>s_checkInterval = None, s_ignoreForks = None, s_ignoreOwnCommits = Some True,
     s_enabledRepos = None, s_notificationsEnabled = None,
     s_releaseNotificationsEnabled = None\<rparr>"

text \<open>
  A world with a GitHub token, the ten repositories in the cache, and a last-seen entry
  for \<open>acme/r11\<close> only.
\<close>

definition example_world :: world where
  "example_world =
    \<lparr>rateLimitRemaining = Num 5000, rateLimitReset = None,
     gitlabRateLimitRemaining = Num 2000, gitlabRateLimitReset = None,
     githubToken = Some ''ghp_example'', gitlabToken = None,
     st_settings = Some example_settings,
     st_userData = Some example_user, st_gitlabUserData = None,
     st_rateLimit = None, st_gitlabRateLimit = None,
     st_lastCommits = Some [''github:acme/r11'' \<mapsto> ''0000000''],
     st_repositories = Some example_repos, st_repositoriesUpdated = Some 1700000000000,
     st_gitlabRepositories = None, st_gitlabRepositoriesUpdated = None,
     st_notificationHistory = None, st_unreadCount = None, st_lastCheckTime = None,
     clock = (\<lambda>n. 1700000001000 + n), ticks = 0,
     network = example_network, requests = [], shown = []\<rparr>"

text \<open>The same world with the GitHub budget nearly used up, ten minutes before the reset.\<close>

definition limited_world :: world where
  "limited_world = example_world\<lparr>rateLimitRemaining := Num 3, rateLimitReset := Some (Num 1700000600)\<rparr>"

text \<open>A server with one repository on the first page and nothing on the pages after it.\<close>

definition paged_world :: world where
  "paged_world =
     example_world\<lparr>network := (\<lambda>n url.
        Response \<lparr>status = 200, headers = (\<lambda>_. None),
                  body = Repos (if url = reposUrl 1 then [example_repo] else [])\<rparr>)\<rparr>"

definition example_notification :: notification where
  "example_notification =
    \<lparr>n_id = ''github-commit-acme/r11-9f2c1a7'', n_type = ''commit'', n_commitType = Some Code,
     n_platform = ''github'', n_repo = ''acme/r11'', n_author = Some ''Dana'',
     n_message = Some ''Refactor session handling'', n_priority = Some Medium,
     n_sha = Some ''9f2c1a7'', n_url = ''https://github.com/acme/r11/commit/9f2c1a7'',
     n_filesChanged = 1, n_additions = 12, n_deletions = 7, timestamp = None\<rparr>"

section \<open>Properties of the classifier\<close>

text \<open>
  C3. A commit with two or more parents has type merge and priority low, whatever its
  files, stats and message are.
\<close>

theorem merge_is_low:
  assumes "parents c = Some ps" and "length ps \<ge> 2"
  shows "type (analyzeCommitType c) = Merge \<and> classifyCommitPriority c rp userData = Low"
  using assms by (simp add: analyzeCommitType_def classifyCommitPriority_def)

theorem merge_is_low_witness:
  "type (analyzeCommitType merge_example) = Merge
   \<and> classifyCommitPriority merge_example example_repo None = Low"
proof (rule merge_is_low)
  show "parents merge_example = Some [''1111111'', ''2222222'']"
    by (simp add: merge_example_def)
  show "length [''1111111'', ''2222222''] \<ge> 2" by simp
qed

text \<open>
  C10. The priority does not depend on the repository or on the user data: it is the same
  for any two values of them, and for two commits that agree on parents, files, stats
  and message.
\<close>

theorem priority_ignores_repo_and_user:
  "classifyCommitPriority c rp1 userData1 = classifyCommitPriority c rp2 userData2
   \<and> (parents c = parents c' \<and> files c = files c' \<and> stats c = stats c' \<and> message c = message c'
        \<longrightarrow> classifyCommitPriority c rp1 userData1 = classifyCommitPriority c' rp2 userData2)"
proof (intro conjI impI)
  show "classifyCommitPriority c rp1 userData1 = classifyCommitPriority c rp2 userData2"
    by (simp add: classifyCommitPriority_def)
next
  assume same: "parents c = parents c' \<and> files c = files c' \<and> stats c = stats c' \<and> message c = message c'"
  then have p: "parents c = parents c'" and f: "files c = files c'"
    and s: "stats c = stats c'" and m: "message c = message c'"
    by simp_all
  have a: "analyzeCommitType c = analyzeCommitType c'"
    unfolding analyzeCommitType_def p f s by (rule refl)
  show "classifyCommitPriority c rp1 userData1 = classifyCommitPriority c' rp2 userData2"
    unfolding classifyCommitPriority_def a f m by (rule refl)
qed

theorem priority_ignores_repo_and_user_witness:
  "classifyCommitPriority merge_example example_repo None
     = classifyCommitPriority (merge_example\<lparr>sha := ''0000000'', html_url := []\<rparr>)
         (example_repo\<lparr>platform := Some ''gitlab''\<rparr>) (Some \<lparr>login = ''dana''\<rparr>)"
proof -
  let ?c' = "merge_example\<lparr>sha := ''0000000'', html_url := []\<rparr>"
  have "parents merge_example = parents ?c' \<and> files merge_example = files ?c'
        \<and> stats merge_example = stats ?c' \<and> message merge_example = message ?c'"
    by simp
  with priority_ignores_repo_and_user [of merge_example example_repo None _ _ ?c']
  show ?thesis by blast
qed

section \<open>Priority of critical files\<close>

lemma firstCritical_None:
  "(firstCritical ps f = None) = (\<not> list_ex (\<lambda>(pattern, category, weight). test pattern (filename f)) ps)"
  by (induction ps f rule: firstCritical.induct) auto

lemma criticalLoop_length:
  "length (fst (criticalLoop fs (found, m))) = length found + length (filter matchesCritical fs)"
proof (induction fs arbitrary: found m)
  case Nil
  show ?case by simp
next
  case (Cons f fs)
  show ?case
  proof (cases "firstCritical criticalPatterns f")
    case None
    then have "\<not> matchesCritical f"
      by (simp add: firstCritical_None matchesCritical_def)
    with None Cons.IH show ?thesis by simp
  next
    case (Some cf)
    then have "matchesCritical f"
      using firstCritical_None [of criticalPatterns f] by (simp add: matchesCritical_def)
    with Some Cons.IH show ?thesis by simp
  qed
qed

lemma critical_count:
  "length (criticalFiles (analyzeCriticalFiles (files c))) = length (filter matchesCritical (filesOf c))"
  by (auto simp: analyzeCriticalFiles_def filesOf_def split_beta Let_def criticalLoop_length
           simp del: criticalLoop.simps split: option.splits list.splits)

lemma hasCritical_iff:
  "hasCritical (analyzeCriticalFiles (files c)) = list_ex matchesCritical (filesOf c)"
proof -
  have "hasCritical (analyzeCriticalFiles (files c))
          = (length (criticalFiles (analyzeCriticalFiles (files c))) > 0)"
    by (auto simp: analyzeCriticalFiles_def split_beta Let_def split: option.splits list.splits)
  also have "\<dots> = (filter matchesCritical (filesOf c) \<noteq> [])"
    by (simp add: critical_count)
  also have "\<dots> = list_ex matchesCritical (filesOf c)"
    by (simp add: filter_empty_conv list_ex_iff)
  finally show ?thesis .
qed

text \<open>
  C6. A commit of type code on which no rule for high priority fires (largest weight of
  a critical file below 3, fewer than three critical files, no file with a large
  deletion, fewer than two critical files, no high-priority keyword in the message) and
  which changes at least one critical file has priority medium, whatever else the
  message says: the rule for critical files comes before the low-priority keywords.
\<close>

theorem critical_file_gives_medium:
  assumes code: "type (analyzeCommitType c) = Code"
    and weight: "maxWeight (analyzeCriticalFiles (files c)) < 3"
    and three: "length (filter matchesCritical (filesOf c)) < 3"
    and deletions: "\<not> hasLargeDeletions (filesOf c)"
    and two: "length (filter matchesCritical (filesOf c)) < 2"
    and keyword: "\<not> list_ex (\<lambda>keyword. includesStr (toLowerCase (message c)) keyword)
                      HIGH_PRIORITY_KEYWORDS"
    and critical: "list_ex matchesCritical (filesOf c)"
  shows "classifyCommitPriority c rp userData = Medium"
proof -
  have high: "\<not> isHighPriority (analyzeCriticalFiles (files c))"
    using weight three [folded critical_count]
    by (auto simp: analyzeCriticalFiles_def Let_def split_beta split: option.splits list.splits)
  have second: "\<not> (case files c of
                        Some (f # fs) \<Rightarrow>
                          hasLargeDeletions (f # fs)
                          \<or> (hasCritical (analyzeCriticalFiles (files c))
                              \<and> length (criticalFiles (analyzeCriticalFiles (files c))) \<ge> 2)
                      | _ \<Rightarrow> False)"
    using deletions two [folded critical_count]
    by (auto simp: filesOf_def split: option.splits list.splits)
  have has: "hasCritical (analyzeCriticalFiles (files c))"
    using critical by (simp add: hasCritical_iff)
  show ?thesis
    unfolding classifyCommitPriority_def Let_def
    using code high second keyword has by simp
qed

theorem critical_file_gives_medium_witness:
  "classifyCommitPriority session_commit example_repo (Some example_user) = Medium"
proof (rule critical_file_gives_medium)
  show "type (analyzeCommitType session_commit) = Code" by code_simp
  show "maxWeight (analyzeCriticalFiles (files session_commit)) < 3" by code_simp
  show "length (filter matchesCritical (filesOf session_commit)) < 3" by code_simp
  show "\<not> hasLargeDeletions (filesOf session_commit)"
    by (simp add: hasLargeDeletions_def largeDeletion_def filesOf_def session_commit_def)
  show "length (filter matchesCritical (filesOf session_commit)) < 2" by code_simp
  show "\<not> list_ex (\<lambda>keyword. includesStr (toLowerCase (message session_commit)) keyword)
            HIGH_PRIORITY_KEYWORDS" by code_simp
  show "list_ex matchesCritical (filesOf session_commit)" by code_simp
qed

section \<open>The pattern families\<close>

lemma categorize_order:
  "categorize filePatterns name =
     (if some_test docsPatterns name then Docs
      else if some_test configPatterns name then Config
      else if some_test ciPatterns name then Ci
      else if some_test testsPatterns name then Tests
      else if some_test localizationPatterns name then Localization
      else Code)"
  by (simp add: filePatterns_def)

lemma countCategories_count:
  "countCategories fs cats cat
     = cats cat + length (filter (\<lambda>f. categorize filePatterns (filename f) = cat) fs)"
  by (induction fs arbitrary: cats) (simp_all add: Let_def)

lemma categorize_in_six: "categorize filePatterns name \<in> set sixCategories"
  by (simp add: categorize_order sixCategories_def)

lemma total_bump:
  "cat \<in> set sixCategories \<Longrightarrow>
     sum_list (map (cats(cat := cats cat + 1)) sixCategories)
       = sum_list (map cats sixCategories) + (1::nat)"
  by (auto simp: sixCategories_def)

lemma countCategories_total:
  "sum_list (map (countCategories fs cats) sixCategories)
     = sum_list (map cats sixCategories) + length fs"
proof (induction fs arbitrary: cats)
  case Nil
  show ?case by simp
next
  case (Cons f fs)
  let ?cat = "categorize filePatterns (filename f)"
  let ?cats = "cats(?cat := cats ?cat + 1)"
  have "sum_list (map (countCategories (f # fs) cats) sixCategories)
          = sum_list (map (countCategories fs ?cats) sixCategories)"
    by (simp add: Let_def)
  also have "\<dots> = sum_list (map ?cats sixCategories) + length fs"
    by (rule Cons.IH)
  also have "\<dots> = sum_list (map cats sixCategories) + 1 + length fs"
    by (simp only: total_bump [OF categorize_in_six])
  finally show ?case by simp
qed

text \<open>
  C7 as stated fails. The families are not disjoint: \<open>docs/package.json\<close> matches a documentation pattern
  (\<open>^docs\/\<close>) and a configuration pattern (\<open>package\.json$\<close>), and is counted as
  documentation.
\<close>

theorem families_overlap:
  "some_test docsPatterns ''docs/package.json'' \<and> some_test configPatterns ''docs/package.json''
   \<and> categorize filePatterns ''docs/package.json'' = Docs"
  by code_simp

text \<open>
  C7, amended. The five pattern families overlap, and \<open>analyzeCommitType\<close> resolves
  the overlap by order: every file is counted in exactly one of the six categories, the
  first of docs, config, ci, tests and localization that has a matching pattern, and
  code when none has. So the six counts add up to the number of files.
\<close>

theorem each_file_in_one_category:
  "sum_list (map (countCategories fs categories0) [Docs, Config, Ci, Tests, Localization, Code])
     = length fs
   \<and> countCategories fs categories0 cat
       = length (filter (\<lambda>f. categorize filePatterns (filename f) = cat) fs)
   \<and> categorize filePatterns name =
       (if some_test docsPatterns name then Docs
        else if some_test configPatterns name then Config
        else if some_test ciPatterns name then Ci
        else if some_test testsPatterns name then Tests
        else if some_test localizationPatterns name then Localization
        else Code)"
  using countCategories_total [of fs categories0] countCategories_count [of fs categories0 cat]
    categorize_order [of name]
  by (simp add: sixCategories_def categories0_def)

section \<open>The rate limit\<close>

text \<open>
  C2 as stated fails. Without a token the call fails as not authenticated, also when the
  budget is used up and the reset lies ahead.
\<close>

theorem unauthenticated_is_not_rate_limited:
  "num_le (rateLimitRemaining (limited_world\<lparr>githubToken := None\<rparr>)) 10
   \<and> before_reset (real (clock limited_world (ticks limited_world)) / 1000)
         (rateLimitReset (limited_world\<lparr>githubToken := None\<rparr>))
   \<and> fetchGitHub ''/user'' (limited_world\<lparr>githubToken := None\<rparr>)
        = (Inl NotAuthenticated, limited_world\<lparr>githubToken := None\<rparr>)"
  by (simp add: limited_world_def example_world_def fetchGitHub_def getAccessToken_def
        getGitHubAccessToken_def)

text \<open>
  C2, amended. When an access token is stored, the tracked budget is at most 10 and the
  time is strictly before the reset, \<open>fetchGitHub\<close> fails with \<open>RateLimited\<close> and a
  positive number of minutes, and makes no request: the world is the one before the
  call but for the reading of the clock.
\<close>

theorem rate_limit_fails_fast:
  assumes token: "getAccessToken w \<noteq> None"
    and low: "num_le (rateLimitRemaining w) 10"
    and early: "before_reset (real (clock w (ticks w)) / 1000) (rateLimitReset w)"
  shows "\<exists>minutes. 0 < minutes
           \<and> fetchGitHub endpoint w = (Inl (RateLimited minutes), w\<lparr>ticks := Suc (ticks w)\<rparr>)
           \<and> requests (snd (fetchGitHub endpoint w)) = requests w"
proof -
  let ?t = "real (clock w (ticks w)) / 1000"
  from early obtain n where n: "rateLimitReset w = Some (Num n)" and lt: "?t < real_of_int n"
    by (cases "(real (clock w (ticks w)) / 1000, rateLimitReset w)" rule: before_reset.cases) auto
  have "0 \<le> ?t" by simp
  with lt have pos: "0 < real_of_int n" by linarith
  then have truthy: "truthyReset (rateLimitReset w)" using n by simp
  have "0 < (real_of_int n - ?t) / 60" using lt by simp
  then have wait: "0 < waitTime (rateLimitReset w) ?t"
    by (simp add: waitTime_def n)
  obtain tok where tok: "getAccessToken w = Some tok" using token by auto
  have "fetchGitHub endpoint w
          = (Inl (RateLimited (waitTime (rateLimitReset w) ?t)), w\<lparr>ticks := Suc (ticks w)\<rparr>)"
    using tok low truthy early by (simp add: fetchGitHub_def Date_now_def Let_def)
  with wait show ?thesis by simp
qed

theorem rate_limit_fails_fast_witness:
  "\<exists>minutes. 0 < minutes
     \<and> fetchGitHub ''/user'' limited_world
          = (Inl (RateLimited minutes), limited_world\<lparr>ticks := Suc (ticks limited_world)\<rparr>)
     \<and> requests (snd (fetchGitHub ''/user'' limited_world)) = requests limited_world"
proof (rule rate_limit_fails_fast)
  show "getAccessToken limited_world \<noteq> None"
    by (simp add: getAccessToken_def getGitHubAccessToken_def limited_world_def example_world_def)
  show "num_le (rateLimitRemaining limited_world) 10"
    by (simp add: limited_world_def)
  show "before_reset (real (clock limited_world (ticks limited_world)) / 1000)
          (rateLimitReset limited_world)"
    by (simp add: limited_world_def example_world_def)
qed

section \<open>The notification history\<close>

lemma take_cons_take: "take 100 (x # take 100 xs) = take 100 (x # xs)"
  by (simp add: take_Cons')

lemma store_history:
  "st_notificationHistory (storeNotificationHistory n w)
     = Some (take 100 (n\<lparr>timestamp := Some (clock w (ticks w))\<rparr> # getOr (st_notificationHistory w) []))"
  "clock (storeNotificationHistory n w) = clock w"
  "ticks (storeNotificationHistory n w) = Suc (ticks w)"
  by (simp_all add: storeNotificationHistory_def Date_now_def Let_def)

lemma take_100_append_take:
  "take 100 (xs @ take 100 ys) = take 100 (xs @ ys)"
  by (simp add: min_def)

lemma fold_store_history:
  "st_notificationHistory (fold storeNotificationHistory ns w)
     = (if ns = [] then st_notificationHistory w
        else Some (take 100 (rev (stampAll (clock w) (ticks w) ns) @ getOr (st_notificationHistory w) [])))"
proof (induction ns arbitrary: w)
  case Nil
  show ?case by simp
next
  case (Cons n ns)
  let ?w = "storeNotificationHistory n w"
  let ?n = "n\<lparr>timestamp := Some (clock w (ticks w))\<rparr>"
  let ?old = "getOr (st_notificationHistory w) []"
  let ?later = "rev (stampAll (clock w) (Suc (ticks w)) ns)"
  have h: "st_notificationHistory ?w = Some (take 100 (?n # ?old))"
    by (rule store_history)
  show ?case
  proof (cases "ns = []")
    case True
    with h show ?thesis by simp
  next
    case False
    with Cons.IH [of ?w]
    have "st_notificationHistory (fold storeNotificationHistory ns ?w)
            = Some (take 100 (?later @ take 100 (?n # ?old)))"
      by (simp only: store_history getOr_def option.case if_False)
    also have "take 100 (?later @ take 100 (?n # ?old)) = take 100 (?later @ ?n # ?old)"
      by (rule take_100_append_take)
    finally show ?thesis by simp
  qed
qed

lemma length_stampAll [simp]: "length (stampAll clk t ns) = length ns"
  by (induction ns arbitrary: t) simp_all

lemma stampAll_nth:
  "i < length ns \<Longrightarrow> stampAll clk t ns ! i = (ns ! i)\<lparr>timestamp := Some (clk (t + i))\<rparr>"
proof (induction ns arbitrary: t i)
  case Nil
  then show ?case by simp
next
  case (Cons n ns)
  then show ?case by (cases i) simp_all
qed

lemma stamps_ascending:
  assumes "\<forall>i j. i \<le> j \<longrightarrow> clk i \<le> clk j"
  shows "sorted (map stampOf (stampAll clk t ns))"
proof (induction ns arbitrary: t)
  case Nil
  show ?case by simp
next
  case (Cons n ns)
  have "\<forall>x \<in> set (stampAll clk (Suc t) ns). clk t \<le> stampOf x"
  proof
    fix x
    assume "x \<in> set (stampAll clk (Suc t) ns)"
    then obtain i where i: "i < length ns" and x: "x = stampAll clk (Suc t) ns ! i"
      by (auto simp: in_set_conv_nth)
    then have "stampOf x = clk (Suc t + i)" by (simp add: stampAll_nth stampOf_def)
    with assms show "clk t \<le> stampOf x" by simp
  qed
  with Cons.IH [of "Suc t"] show ?case by (simp add: stampOf_def)
qed

text \<open>
  C5. After more than 100 notifications have been stored one after the other, from any
  starting history, the stored history has exactly 100 entries: the 100 stored last, the
  newest first. When the clock never runs backwards, their time stamps descend.
\<close>

theorem history_keeps_latest_100:
  assumes "length ns > 100"
  shows "st_notificationHistory (fold storeNotificationHistory ns w)
           = Some (rev (drop (length ns - 100) (stampAll (clock w) (ticks w) ns)))
       \<and> length (rev (drop (length ns - 100) (stampAll (clock w) (ticks w) ns))) = 100
       \<and> ((\<forall>i j. i \<le> j \<longrightarrow> clock w i \<le> clock w j)
            \<longrightarrow> sorted_wrt (\<lambda>a b. stampOf a \<ge> stampOf b)
                  (rev (drop (length ns - 100) (stampAll (clock w) (ticks w) ns))))"
proof -
  let ?st = "stampAll (clock w) (ticks w) ns"
  have ne: "ns \<noteq> []" using assms by auto
  have "take 100 (rev ?st @ getOr (st_notificationHistory w) []) = take 100 (rev ?st)"
    using assms by simp
  also have "\<dots> = rev (drop (length ns - 100) ?st)"
    by (simp add: take_rev)
  finally have hist: "st_notificationHistory (fold storeNotificationHistory ns w)
           = Some (rev (drop (length ns - 100) ?st))"
    using ne by (simp add: fold_store_history)
  have len: "length (rev (drop (length ns - 100) ?st)) = 100"
    using assms by simp
  have ord: "sorted_wrt (\<lambda>a b. stampOf a \<ge> stampOf b) (rev (drop (length ns - 100) ?st))"
    if "\<forall>i j. i \<le> j \<longrightarrow> clock w i \<le> clock w j"
  proof -
    have "sorted (map stampOf ?st)" using that by (rule stamps_ascending)
    then have "sorted (drop (length ns - 100) (map stampOf ?st))"
      by (rule sorted_wrt_drop)
    then have "sorted_wrt (\<lambda>a b. stampOf a \<le> stampOf b) (drop (length ns - 100) ?st)"
      by (simp add: drop_map sorted_wrt_map)
    then show ?thesis by (simp add: sorted_wrt_rev)
  qed
  from hist len ord show ?thesis by blast
qed

theorem history_keeps_latest_100_witness:
  "st_notificationHistory (fold storeNotificationHistory (replicate 101 example_notification) example_world)
     = Some (rev (drop 1 (stampAll (clock example_world) (ticks example_world)
                            (replicate 101 example_notification))))
   \<and> length (rev (drop 1 (stampAll (clock example_world) (ticks example_world)
                            (replicate 101 example_notification)))) = 100
   \<and> sorted_wrt (\<lambda>a b. stampOf a \<ge> stampOf b)
         (rev (drop 1 (stampAll (clock example_world) (ticks example_world)
                         (replicate 101 example_notification))))"
proof -
  have long: "length (replicate 101 example_notification) > 100" by simp
  have clk: "\<forall>i j. i \<le> j \<longrightarrow> clock example_world i \<le> clock example_world j"
    by (simp add: example_world_def)
  from history_keeps_latest_100 [OF long, of example_world] clk show ?thesis by simp
qed

section \<open>What the requests leave untouched\<close>

lemma stable_refl [simp]: "stable w w"
  by (simp add: stable_def)




















lemma checkBatch_length [simp]:
  "length (fst (checkBatch batch lc sets u g w)) = length batch"
  by (induction batch arbitrary: w) (simp_all add: split_beta Let_def)







lemma repoKeyOf_nonempty [simp]: "repoKeyOf rp \<noteq> []"
  by (simp add: repoKeyOf_def)


section \<open>The results of a sweep\<close>



lemma storeNotificationHistory_lastCommits [simp]:
  "st_lastCommits (storeNotificationHistory n w) = st_lastCommits w"
  by (simp add: storeNotificationHistory_def Date_now_def Let_def)

lemma sendCommitNotification_lastCommits [simp]:
  "st_lastCommits (sendCommitNotification rp c p w) = st_lastCommits w"
  by (simp add: sendCommitNotification_def Let_def)

lemma fold_send_lastCommits [simp]:
  "st_lastCommits (fold (\<lambda>r. sendCommitNotification (cr_repo r) (cr_commit r) (cr_priority r)) rs w)
     = st_lastCommits w"
  by (induction rs arbitrary: w) simp_all



lemma sweepResults_length [simp]: "length (sweepResults repos w w1) = length repos"
  by (simp add: sweepResults_def)



section \<open>A request that fails\<close>







section \<open>Evaluation on the example world\<close>

lemma parseInt_defaults:
  "parseInt ''5000'' = Num 5000" "parseInt ''2000'' = Num 2000" "parseInt ''0'' = Num 0"
  by (simp_all add: parseInt_def isWhiteSpace_def digitValue_def numberOf_def toLowerCase_def
        toLowerChar_def upt_rec)

lemma fetchGitHub_answer:
  assumes "truthyStr (githubToken w)"
    and "\<not> (num_le (rateLimitRemaining w) 10 \<and> truthyReset (rateLimitReset w))"
    and "\<not> startsWith e ''http''"
    and "network w (length (requests w)) (GITHUB_API_BASE @ e) = Response r"
  shows "fetchGitHub e w =
    (Inr r,
     w\<lparr>requests := requests w @ [GITHUB_API_BASE @ e],
       rateLimitRemaining := headerInt r ''X-RateLimit-Remaining'' ''5000'',
       rateLimitReset := Some (headerInt r ''X-RateLimit-Reset'' ''0''),
       st_rateLimit := Some \<lparr>remaining = headerInt r ''X-RateLimit-Remaining'' ''5000'',
                              reset = headerInt r ''X-RateLimit-Reset'' ''0'',
                              limit = headerInt r ''X-RateLimit-Limit'' ''5000''\<rparr>\<rparr>)"
proof -
  from assms(1) obtain tok where "githubToken w = Some tok" and "tok \<noteq> []"
    by (cases "githubToken w") auto
  with assms(2,3,4) show ?thesis
    by (auto simp: fetchGitHub_def getAccessToken_def getGitHubAccessToken_def fetch_def Let_def)
qed

lemma headerInt_absent: "headers r name = None \<Longrightarrow> headerInt r name dflt = parseInt dflt"
  by (simp add: headerInt_def orElse_def)

lemma github_fetch_changed:
  assumes tok: "truthyStr (githubToken w)"
    and budget: "\<not> num_le (rateLimitRemaining w) 10"
    and list: "\<And>n. network w n (GITHUB_API_BASE @ githubCommitsEndpoint rp)
                 = Response \<lparr>status = 200, headers = (\<lambda>_. None), body = Commits [c0]\<rparr>"
    and detail: "\<And>n. network w n (GITHUB_API_BASE @ ''/repos/'' @ full_name rp @ ''/commits/'' @ sha c0)
                 = Response \<lparr>status = 200, headers = (\<lambda>_. None), body = CommitDetail d\<rparr>"
    and new: "\<not> (truthyStr l \<and> Some (sha c0) = l)"
  shows "fst (fetchLatestGitHubCommit rp l w) = Some \<lparr>the_commit = d, unchanged = False\<rparr>"
proof -
  let ?r1 = "\<lparr>status = 200, headers = (\<lambda>_. None), body = Commits [c0]\<rparr>"
  let ?r2 = "\<lparr>status = 200, headers = (\<lambda>_. None), body = CommitDetail d\<rparr>"
  have e1: "\<not> startsWith (githubCommitsEndpoint rp) ''http''"
    by (simp add: githubCommitsEndpoint_def)
  obtain w1 where f1: "fetchGitHub (githubCommitsEndpoint rp) w = (Inr ?r1, w1)"
    and w1: "githubToken w1 = githubToken w" "rateLimitRemaining w1 = Num 5000"
      "network w1 = network w"
    using fetchGitHub_answer [OF tok _ e1 list] budget
    by (simp add: headerInt_absent parseInt_defaults)
  have e2: "\<not> startsWith (''/repos/'' @ full_name rp @ ''/commits/'' @ sha c0) ''http''"
    by simp
  have "network w1 (length (requests w1)) (GITHUB_API_BASE @ ''/repos/'' @ full_name rp @ ''/commits/'' @ sha c0)
          = Response ?r2"
    using detail w1 by simp
  from fetchGitHub_answer [OF _ _ e2 this] tok w1
  obtain w2 where f2: "fetchGitHub (''/repos/'' @ full_name rp @ ''/commits/'' @ sha c0) w1 = (Inr ?r2, w2)"
    by simp
  show ?thesis
    using f1 f2 new
    by (simp add: fetchLatestGitHubCommit_def fetchLatestGitHubCommit_try_def ok_def Let_def)
qed

lemma example_list:
  "example_network k (GITHUB_API_BASE @ githubCommitsEndpoint (watched 11))
     = Response \<lparr>status = 200, headers = (\<lambda>_. None), body = Commits [session_commit_basic]\<rparr>"
  "example_network k (GITHUB_API_BASE @ githubCommitsEndpoint (watched 12))
     = Response \<lparr>status = 200, headers = (\<lambda>_. None), body = Commits [session_commit_basic]\<rparr>"
  by (simp_all add: example_network_def commitsUrl_def GITHUB_API_BASE_def githubCommitsEndpoint_def
        watched_def hexDigit_def)

lemma example_detail:
  "example_network k (GITHUB_API_BASE @ ''/repos/'' @ full_name (watched 11) @ ''/commits/''
        @ sha session_commit_basic)
     = Response \<lparr>status = 200, headers = (\<lambda>_. None), body = CommitDetail session_commit\<rparr>"
  "example_network k (GITHUB_API_BASE @ ''/repos/'' @ full_name (watched 12) @ ''/commits/''
        @ sha session_commit_basic)
     = Response \<lparr>status = 200, headers = (\<lambda>_. None), body = CommitDetail session_commit\<rparr>"
  by (simp_all add: example_network_def commitsUrl_def GITHUB_API_BASE_def githubCommitsEndpoint_def
        watched_def hexDigit_def session_commit_basic_def session_commit_def)



lemma example_sweep_inputs:
  "notificationsEnabled (getSettings example_world)"
  "ignoreOwnCommits (getSettings example_world)"
  "enabledRepos (getSettings example_world) k = None"
  "st_userData example_world = Some example_user"
  "st_gitlabUserData example_world = None"
  "getOr (st_lastCommits example_world) (\<lambda>_. None) = [''github:acme/r11'' \<mapsto> ''0000000'']"
  by (simp_all add: getSettings_def example_world_def example_settings_def getOr_def)






text \<open>A check in a world without last-seen entries.\<close>

lemma example_fresh_fetch:
  "fst (fetchLatestCommit (watched 12) None example_world)
     = Some \<lparr>the_commit = session_commit, unchanged = False\<rparr>"
proof -
  have net: "network example_world = example_network" by (simp add: example_world_def)
  have "fst (fetchLatestGitHubCommit (watched 12) None example_world)
          = Some \<lparr>the_commit = session_commit, unchanged = False\<rparr>"
  proof (rule github_fetch_changed [of example_world "watched 12" session_commit_basic session_commit])
    show "truthyStr (githubToken example_world)" by (simp add: example_world_def)
    show "\<not> num_le (rateLimitRemaining example_world) 10" by (simp add: example_world_def)
    show "network example_world n (GITHUB_API_BASE @ githubCommitsEndpoint (watched 12))
            = Response \<lparr>status = 200, headers = (\<lambda>_. None), body = Commits [session_commit_basic]\<rparr>"
      for n by (simp only: net example_list)
    show "network example_world n (GITHUB_API_BASE @ ''/repos/'' @ full_name (watched 12)
              @ ''/commits/'' @ sha session_commit_basic)
            = Response \<lparr>status = 200, headers = (\<lambda>_. None), body = CommitDetail session_commit\<rparr>"
      for n by (simp only: net example_detail)
    show "\<not> (truthyStr None \<and> Some (sha session_commit_basic) = None)" by simp
  qed
  then show ?thesis by (simp add: fetchLatestCommit_def watched_def)
qed

section \<open>Pagination\<close>

lemma reposEndpoint_not_http [simp]: "\<not> startsWith (reposEndpoint page) ''http''"
  by (simp add: reposEndpoint_def)

lemma fetchGitHub_requests:
  assumes "fetchGitHub e w = (r, w1)" and "\<not> startsWith e ''http''"
  shows "network w1 = network w"
    and "(requests w1 = requests w \<and> isl r) \<or> requests w1 = requests w @ [GITHUB_API_BASE @ e]"
    and "\<And>resp. r = Inr resp \<Longrightarrow> requests w1 = requests w @ [GITHUB_API_BASE @ e]
            \<and> (\<exists>n. network w n (GITHUB_API_BASE @ e) = Response resp)"
  using assms
  by (auto simp: fetchGitHub_def fetch_def Date_now_def Let_def
           split: option.splits prod.splits net_result.splits if_splits)

lemma fetchUserRepositories_loop_bound:
  assumes "page \<le> 50"
  shows "\<exists>k. k \<le> 51 - page
           \<and> requests (snd (fetchUserRepositories_loop sets page repos w))
               = requests w @ map reposUrl [page..<page + k]
           \<and> (honoursPerPage w \<longrightarrow>
                (\<forall>rs. fst (fetchUserRepositories_loop sets page repos w) = Inr rs
                       \<longrightarrow> length rs \<le> length repos + 100 * k))"
  using assms
proof (induction sets page repos w rule: fetchUserRepositories_loop.induct)
  case (1 sets page repos w)
  obtain r w1 where f: "fetchGitHub (reposEndpoint page) w = (r, w1)"
    by (cases "fetchGitHub (reposEndpoint page) w")
  note req = fetchGitHub_requests [OF f reposEndpoint_not_http]
  show ?case
  proof (cases r)
    case (Inl e)
    then have res: "fetchUserRepositories_loop sets page repos w = (Inl e, w1)"
      using f by (subst fetchUserRepositories_loop.simps) simp
    from req(2) show ?thesis
    proof
      assume "requests w1 = requests w \<and> isl r"
      with res show ?thesis by (intro exI [of _ 0]) simp
    next
      assume "requests w1 = requests w @ [GITHUB_API_BASE @ reposEndpoint page]"
      with res "1.prems" show ?thesis by (intro exI [of _ 1]) (simp add: reposUrl_def)
    qed
  next
    case (Inr resp)
    from req(3) [OF Inr] have rq: "requests w1 = requests w @ [reposUrl page]"
      and net: "\<exists>n. network w n (GITHUB_API_BASE @ reposEndpoint page) = Response resp"
      by (simp_all add: reposUrl_def)
    show ?thesis
    proof (cases "ok resp \<and> (\<exists>pageRepos. body resp = Repos pageRepos \<and> pageRepos \<noteq> [] \<and> \<not> page + 1 > 50)")
      case False
      have one: "[page..<page + 1] = [page]" by simp
      have small: "honoursPerPage w \<Longrightarrow> body resp = Repos pageRepos \<Longrightarrow> length pageRepos \<le> 100"
        for pageRepos
        using net unfolding honoursPerPage_def by blast
      have len: "honoursPerPage w \<Longrightarrow> body resp = Repos pageRepos \<Longrightarrow>
          length (filter (\<lambda>r. \<not> ignoreForks sets \<or> \<not> fork r) pageRepos) \<le> 100" for pageRepos
        using small [of pageRepos] length_filter_le [of _ pageRepos] by (meson le_trans)
      from False f Inr rq "1.prems" len show ?thesis
        by (subst (1 2) fetchUserRepositories_loop.simps, intro exI [of _ 1])
           (auto simp: Let_def one split: body.splits)
    next
      case True
      then obtain pageRepos where b: "body resp = Repos pageRepos" and ne: "pageRepos \<noteq> []"
        and pg: "\<not> page + 1 > 50" and okr: "ok resp" by auto
      let ?repos = "repos @ map (\<lambda>r. r\<lparr>platform := Some ''github''\<rparr>)
                         (filter (\<lambda>r. \<not> ignoreForks sets \<or> \<not> fork r) pageRepos)"
      have okr': "\<not> \<not> ok resp" using okr by simp
      have len: "length pageRepos \<noteq> 0" using ne by simp
      have pg': "page + 1 \<le> 50" using pg by simp
      from "1.IH" [OF f [symmetric] Inr okr' b len refl pg pg']
      obtain k where k: "k \<le> 51 - (page + 1)"
        and rk: "requests (snd (fetchUserRepositories_loop sets (page + 1) ?repos w1))
                   = requests w1 @ map reposUrl [page + 1..<page + 1 + k]"
        and lk: "honoursPerPage w1 \<longrightarrow>
                (\<forall>rs. fst (fetchUserRepositories_loop sets (page + 1) ?repos w1) = Inr rs
                       \<longrightarrow> length rs \<le> length ?repos + 100 * k)"
        by blast
      have step: "fetchUserRepositories_loop sets page repos w
                    = fetchUserRepositories_loop sets (page + 1) ?repos w1"
        using f Inr b ne pg okr by (subst fetchUserRepositories_loop.simps) (simp add: Let_def)
      have hp: "honoursPerPage w1 = honoursPerPage w"
        using req(1) by (simp add: honoursPerPage_def)
      have small: "honoursPerPage w \<Longrightarrow> length pageRepos \<le> 100"
        using net b unfolding honoursPerPage_def by blast
      have flen: "honoursPerPage w \<Longrightarrow> length ?repos \<le> length repos + 100"
      proof -
        assume "honoursPerPage w"
        then have "length pageRepos \<le> 100" by (rule small)
        moreover have "length (filter (\<lambda>r. \<not> ignoreForks sets \<or> \<not> fork r) pageRepos)
                         \<le> length pageRepos"
          by (rule length_filter_le)
        moreover have "length ?repos
            = length repos + length (filter (\<lambda>r. \<not> ignoreForks sets \<or> \<not> fork r) pageRepos)"
          by simp
        ultimately show ?thesis by linarith
      qed
      show ?thesis
      proof (intro exI [of _ "Suc k"] conjI impI allI)
        show "Suc k \<le> 51 - page" using k pg' by simp
        show "requests (snd (fetchUserRepositories_loop sets page repos w))
                = requests w @ map reposUrl [page..<page + Suc k]"
        proof -
          have u: "[page..<page + Suc k] = page # [page + 1..<page + 1 + k]"
            by (simp add: upt_rec)
          have "requests (snd (fetchUserRepositories_loop sets page repos w))
                  = requests w1 @ map reposUrl [page + 1..<page + 1 + k]"
            by (simp only: step rk)
          also have "\<dots> = requests w @ map reposUrl (page # [page + 1..<page + 1 + k])"
            by (simp only: rq append_assoc list.map append_Cons append_Nil)
          finally show ?thesis by (simp only: u)
        qed
        fix rs
        assume "honoursPerPage w" and "fst (fetchUserRepositories_loop sets page repos w) = Inr rs"
        with lk hp flen show "length rs \<le> length repos + 100 * Suc k"
          by (simp add: step)
      qed
    qed
  qed
qed

text \<open>
  C9. \<open>fetchUserRepositories\<close> asks for the pages 1, 2, ... with \<open>per_page=100\<close>
  and makes at most 50 requests, whatever the server answers; the loop is a total
  function, with \<open>51 - page\<close> as its measure. When the server returns at most the 100
  entries per page that it was asked for, the list returned has at most 5000 entries.
\<close>

theorem repositories_are_paged_and_bounded:
  "\<exists>k. k \<le> 50
      \<and> requests (snd (fetchUserRepositories w)) = requests w @ map reposUrl [1..<1 + k]
      \<and> (honoursPerPage w \<longrightarrow>
           (\<forall>repos. fst (fetchUserRepositories w) = Inr repos \<longrightarrow> length repos \<le> 5000))"
proof -
  obtain k where k: "k \<le> 51 - 1"
    and rk: "requests (snd (fetchUserRepositories_loop (getSettings w) 1 [] w))
               = requests w @ map reposUrl [1..<1 + k]"
    and lk: "honoursPerPage w \<longrightarrow>
                (\<forall>rs. fst (fetchUserRepositories_loop (getSettings w) 1 [] w) = Inr rs
                       \<longrightarrow> length rs \<le> length ([] :: repo list) + 100 * k)"
    using fetchUserRepositories_loop_bound [of 1 "getSettings w" "[]" w] by auto
  obtain r w1 where l: "fetchUserRepositories_loop (getSettings w) 1 [] w = (r, w1)"
    by (cases "fetchUserRepositories_loop (getSettings w) 1 [] w")
  have req: "requests (snd (fetchUserRepositories w)) = requests w1"
    using l by (cases r) (simp_all add: fetchUserRepositories_def Let_def Date_now_def)
  have res: "fst (fetchUserRepositories w) = r"
    using l by (cases r) (simp_all add: fetchUserRepositories_def Let_def Date_now_def)
  show ?thesis
  proof (intro exI [of _ k] conjI impI allI)
    show "k \<le> 50" using k by simp
    show "requests (snd (fetchUserRepositories w)) = requests w @ map reposUrl [1..<1 + k]"
      using rk l req by simp
    fix repos
    assume "honoursPerPage w" and "fst (fetchUserRepositories w) = Inr repos"
    with lk l res have "length repos \<le> 100 * k" by simp
    with k show "length repos \<le> 5000" by simp
  qed
qed

lemma paged_honours: "honoursPerPage paged_world"
  by (auto simp: honoursPerPage_def paged_world_def)

lemma paged_settings: "ignoreForks (getSettings paged_world)"
  by (simp add: getSettings_def paged_world_def example_world_def example_settings_def getOr_def)

lemma paged_first:
  "fetchGitHub (reposEndpoint (Suc 0)) paged_world
     = (Inr \<lparr>status = 200, headers = (\<lambda>_. None), body = Repos [example_repo]\<rparr>,
        paged_world\<lparr>requests := [reposUrl (Suc 0)], rateLimitRemaining := Num 5000,
          rateLimitReset := Some (Num 0),
          st_rateLimit := Some \<lparr>remaining = Num 5000, reset = Num 0, limit = Num 5000\<rparr>\<rparr>)"
proof -
  let ?r = "\<lparr>status = 200, headers = (\<lambda>_. None), body = Repos [example_repo]\<rparr>"
  have "network paged_world (length (requests paged_world)) (GITHUB_API_BASE @ reposEndpoint (Suc 0))
          = Response ?r"
    by (simp add: paged_world_def reposUrl_def)
  from fetchGitHub_answer [OF _ _ reposEndpoint_not_http this] show ?thesis
    by (simp add: paged_world_def example_world_def headerInt_absent parseInt_defaults reposUrl_def)
qed

lemma pages_differ: "reposUrl 2 \<noteq> reposUrl (Suc 0)"
  by (simp add: reposUrl_def reposEndpoint_def hexDigit_def)

lemma paged_second:
  "fetchGitHub (reposEndpoint 2)
      (paged_world\<lparr>requests := [reposUrl (Suc 0)], rateLimitRemaining := Num 5000,
          rateLimitReset := Some (Num 0),
          st_rateLimit := Some \<lparr>remaining = Num 5000, reset = Num 0, limit = Num 5000\<rparr>\<rparr>)
     = (Inr \<lparr>status = 200, headers = (\<lambda>_. None), body = Repos []\<rparr>,
        paged_world\<lparr>requests := [reposUrl (Suc 0), reposUrl 2], rateLimitRemaining := Num 5000,
          rateLimitReset := Some (Num 0),
          st_rateLimit := Some \<lparr>remaining = Num 5000, reset = Num 0, limit = Num 5000\<rparr>\<rparr>)"
proof -
  let ?w = "paged_world\<lparr>requests := [reposUrl (Suc 0)], rateLimitRemaining := Num 5000,
          rateLimitReset := Some (Num 0),
          st_rateLimit := Some \<lparr>remaining = Num 5000, reset = Num 0, limit = Num 5000\<rparr>\<rparr>"
  let ?r = "\<lparr>status = 200, headers = (\<lambda>_. None), body = Repos []\<rparr>"
  have "network ?w (length (requests ?w)) (GITHUB_API_BASE @ reposEndpoint 2) = Response ?r"
    using pages_differ by (simp add: paged_world_def reposUrl_def)
  from fetchGitHub_answer [OF _ _ reposEndpoint_not_http this] show ?thesis
    by (simp add: paged_world_def example_world_def headerInt_absent parseInt_defaults reposUrl_def)
qed

lemma paged_loop:
  "fetchUserRepositories_loop (getSettings paged_world) (Suc 0) [] paged_world
     = (Inr [example_repo],
        paged_world\<lparr>requests := [reposUrl (Suc 0), reposUrl 2], rateLimitRemaining := Num 5000,
          rateLimitReset := Some (Num 0),
          st_rateLimit := Some \<lparr>remaining = Num 5000, reset = Num 0, limit = Num 5000\<rparr>\<rparr>)"
proof -
  have second: "fetchUserRepositories_loop (getSettings paged_world) 2 [example_repo]
      (paged_world\<lparr>requests := [reposUrl (Suc 0)], rateLimitRemaining := Num 5000,
          rateLimitReset := Some (Num 0),
          st_rateLimit := Some \<lparr>remaining = Num 5000, reset = Num 0, limit = Num 5000\<rparr>\<rparr>)
     = (Inr [example_repo],
        paged_world\<lparr>requests := [reposUrl (Suc 0), reposUrl 2], rateLimitRemaining := Num 5000,
          rateLimitReset := Some (Num 0),
          st_rateLimit := Some \<lparr>remaining = Num 5000, reset = Num 0, limit = Num 5000\<rparr>\<rparr>)"
    by (subst fetchUserRepositories_loop.simps) (simp add: paged_second ok_def)
  show ?thesis
    by (subst fetchUserRepositories_loop.simps)
       (simp add: paged_first ok_def paged_settings example_repo_def
          numeral_2_eq_2 [symmetric] second [unfolded example_repo_def])
qed

theorem repositories_are_paged_and_bounded_witness:
  "honoursPerPage paged_world
   \<and> fst (fetchUserRepositories paged_world) = Inr [example_repo]
   \<and> requests (snd (fetchUserRepositories paged_world)) = [reposUrl 1, reposUrl 2]
   \<and> length [example_repo] \<le> 5000"
proof -
  have res: "fst (fetchUserRepositories paged_world) = Inr [example_repo]"
    by (simp add: fetchUserRepositories_def paged_loop Date_now_def Let_def)
  have req: "requests (snd (fetchUserRepositories paged_world)) = [reposUrl 1, reposUrl 2]"
    by (simp add: fetchUserRepositories_def paged_loop Date_now_def Let_def)
  from repositories_are_paged_and_bounded [of paged_world] paged_honours res
  have "length [example_repo] \<le> 5000" by blast
  with paged_honours res req show ?thesis by simp
qed

section \<open>The first observation of a repository\<close>

lemma github_first_fetch_changed:
  "fetchLatestGitHubCommit rp lastKnownSha w = (Some l, w') \<Longrightarrow> \<not> truthyStr lastKnownSha \<Longrightarrow> \<not> unchanged l"
  by (auto simp: fetchLatestGitHubCommit_def fetchLatestGitHubCommit_try_def Let_def
           split: prod.splits sum.splits if_splits body.splits list.splits)

lemma gitlab_first_fetch_changed:
  "fetchLatestGitLabCommit rp lastKnownSha w = (Some l, w') \<Longrightarrow> \<not> truthyStr lastKnownSha \<Longrightarrow> \<not> unchanged l"
  by (auto simp: fetchLatestGitLabCommit_def fetchLatestGitLabCommit_try_def Let_def
           split: prod.splits sum.splits if_splits body.splits list.splits)

lemma first_fetch_changed:
  "fetchLatestCommit rp lastKnownSha w = (Some l, w') \<Longrightarrow> \<not> truthyStr lastKnownSha \<Longrightarrow> \<not> unchanged l"
  by (auto simp: fetchLatestCommit_def dest: github_first_fetch_changed gitlab_first_fetch_changed
           split: if_splits)

lemma lastKnown_absent:
  "lastCommits (repoKeyOf rp) = None \<Longrightarrow> lastCommits (full_name rp) = None
     \<Longrightarrow> lastKnownShaOf lastCommits rp = None"
  by (simp add: lastKnownShaOf_def jsOr_def)

text \<open>
  C1. For a repository without a last-seen entry, under the composite key and under the
  plain name, \<open>checkRepoForNewCommits\<close> never returns a result with \<open>isNew\<close> true;
  when the repository is not disabled and a commit is fetched, it returns that commit
  with \<open>isNew\<close> false.
\<close>

theorem first_observation_is_not_new:
  assumes "lastCommits (repoKeyOf rp) = None" and "lastCommits (full_name rp) = None"
  shows "(\<forall>r. fst (checkRepoForNewCommits rp lastCommits sets userData gitlabUserData w) = Some r
              \<longrightarrow> \<not> isNew r)
       \<and> (enabledRepos sets (repoKeyOf rp) \<noteq> Some False
            \<and> enabledRepos sets (full_name rp) \<noteq> Some False
            \<and> fetchLatestCommit rp None w = (Some fetched, w')
          \<longrightarrow> checkRepoForNewCommits rp lastCommits sets userData gitlabUserData w
                = (Some \<lparr>cr_repo = rp, cr_commit = the_commit fetched, isNew = False,
                          cr_priority = None, repoKey = repoKeyOf rp\<rparr>, w'))"
proof -
  have none: "lastKnownShaOf lastCommits rp = None"
    using assms by (rule lastKnown_absent)
  show ?thesis
  proof (intro conjI allI impI)
    fix r
    assume "fst (checkRepoForNewCommits rp lastCommits sets userData gitlabUserData w) = Some r"
    then show "\<not> isNew r"
      by (auto simp: checkRepoForNewCommits_def none Let_def split: if_splits prod.splits option.splits)
  next
    assume h: "enabledRepos sets (repoKeyOf rp) \<noteq> Some False
            \<and> enabledRepos sets (full_name rp) \<noteq> Some False
            \<and> fetchLatestCommit rp None w = (Some fetched, w')"
    then have "\<not> unchanged fetched"
      using first_fetch_changed [of rp None w fetched w'] by simp
    with h show "checkRepoForNewCommits rp lastCommits sets userData gitlabUserData w
                = (Some \<lparr>cr_repo = rp, cr_commit = the_commit fetched, isNew = False,
                          cr_priority = None, repoKey = repoKeyOf rp\<rparr>, w')"
      by (simp add: checkRepoForNewCommits_def none Let_def)
  qed
qed

theorem first_observation_is_not_new_witness:
  "fst (checkRepoForNewCommits (watched 12) (\<lambda>_. None) (getSettings example_world)
          (Some example_user) None example_world)
     = Some \<lparr>cr_repo = watched 12, cr_commit = session_commit, isNew = False,
             cr_priority = None, repoKey = repoKeyOf (watched 12)\<rparr>"
proof -
  let ?f = "fetchLatestCommit (watched 12) None example_world"
  have f: "?f = (Some \<lparr>the_commit = session_commit, unchanged = False\<rparr>, snd ?f)"
    using example_fresh_fetch by (metis prod.collapse)
  have en: "enabledRepos (getSettings example_world) (repoKeyOf (watched 12)) \<noteq> Some False"
      "enabledRepos (getSettings example_world) (full_name (watched 12)) \<noteq> Some False"
    by (simp_all add: example_sweep_inputs)
  from first_observation_is_not_new
         [of "\<lambda>_. None" "watched 12" "getSettings example_world" "Some example_user" None
             example_world "\<lparr>the_commit = session_commit, unchanged = False\<rparr>" "snd ?f"]
       f en
  show ?thesis by simp
qed

section \<open>Own commits\<close>






section \<open>Isolation of failures\<close>



end
